theory Spec2Isabelle
  imports Complex_Main "HOL-Library.Char_ord" "HOL-Library.List_Lexorder"
    "HOL-Library.Product_Lexorder"
begin

section \<open>Errors\<close>

text \<open>
  The exceptions the library calls of \<open>indhureworkcode.py\<close> raise. The source itself has no
  \<open>raise\<close> and no \<open>try\<close>: every exception leaves the function that meets it.
\<close>

datatype error = KeyError | TypeError | ValueError | IndexError | RuntimeError

section \<open>Floating-point values\<close>

text \<open>
  A float is a finite number, an infinity or not-a-number. Rounding, overflow to an
  infinity and the sign of zero are not modelled: a finite result is the real number the
  operation has. The operations are the IEEE ones numpy applies elementwise; a division by
  zero in numpy gives an infinity or NaN (and a warning), never an exception.
\<close>

datatype fval = Fin real | PInf | NInf | NaN

fun fadd :: "fval \<Rightarrow> fval \<Rightarrow> fval" where
  "fadd NaN _ = NaN"
| "fadd _ NaN = NaN"
| "fadd (Fin a) (Fin b) = Fin (a + b)"
| "fadd PInf NInf = NaN"
| "fadd NInf PInf = NaN"
| "fadd PInf _ = PInf"
| "fadd _ PInf = PInf"
| "fadd NInf _ = NInf"
| "fadd _ NInf = NInf"

fun fsub :: "fval \<Rightarrow> fval \<Rightarrow> fval" where
  "fsub NaN _ = NaN"
| "fsub _ NaN = NaN"
| "fsub (Fin a) (Fin b) = Fin (a - b)"
| "fsub PInf PInf = NaN"
| "fsub NInf NInf = NaN"
| "fsub PInf _ = PInf"
| "fsub _ NInf = PInf"
| "fsub NInf _ = NInf"
| "fsub _ PInf = NInf"

text \<open>The sign of a float: 1, 0 or -1; used for products and quotients with an infinity.\<close>

fun fsign :: "fval \<Rightarrow> int" where
  "fsign (Fin a) = (if 0 < a then 1 else if a < 0 then -1 else 0)"
| "fsign PInf = 1"
| "fsign NInf = -1"
| "fsign NaN = 0"

definition signed_inf :: "int \<Rightarrow> fval" where
  "signed_inf s = (if s = 0 then NaN else if 0 < s then PInf else NInf)"

fun fmul :: "fval \<Rightarrow> fval \<Rightarrow> fval" where
  "fmul NaN _ = NaN"
| "fmul _ NaN = NaN"
| "fmul (Fin a) (Fin b) = Fin (a * b)"
| "fmul x y = signed_inf (fsign x * fsign y)"

text \<open>
  Division. The divisor of \<open>err_ranges\<close> is the integer \<open>df\<close>, never negative: a
  finite number over zero is an infinity of its sign, zero over zero is NaN.
\<close>

fun fdiv :: "fval \<Rightarrow> fval \<Rightarrow> fval" where
  "fdiv NaN _ = NaN"
| "fdiv _ NaN = NaN"
| "fdiv (Fin a) (Fin b) = (if b = 0 then signed_inf (fsign (Fin a)) else Fin (a / b))"
| "fdiv (Fin a) _ = Fin 0"
| "fdiv x (Fin b) = signed_inf (fsign x * (if b < 0 then -1 else 1))"
| "fdiv _ _ = NaN"

fun fsqrt :: "fval \<Rightarrow> fval" where
  "fsqrt (Fin a) = (if a < 0 then NaN else Fin (sqrt a))"
| "fsqrt PInf = PInf"
| "fsqrt NInf = NaN"
| "fsqrt NaN = NaN"

fun fexp :: "fval \<Rightarrow> fval" where
  "fexp (Fin a) = Fin (exp a)"
| "fexp PInf = PInf"
| "fexp NInf = Fin 0"
| "fexp NaN = NaN"

text \<open>\<open>residuals**2\<close>, elementwise.\<close>

definition fsquare :: "fval \<Rightarrow> fval" where
  "fsquare x = fmul x x"

text \<open>
  \<open>np.sum\<close> of a pandas Series hands over to \<open>Series.sum\<close>, which leaves the NaN entries
  out (\<open>skipna=True\<close>) and adds the others from 0.
\<close>

definition series_sum :: "fval list \<Rightarrow> fval" where
  "series_sum vs = foldl fadd (Fin 0) (filter (\<lambda>v. v \<noteq> NaN) vs)"

text \<open>\<open>np.diag\<close> of a two-dimensional array (a list of rows): its main diagonal.\<close>

definition diag :: "fval list list \<Rightarrow> fval list" where
  "diag M = (case M of [] \<Rightarrow> []
             | r # _ \<Rightarrow> map (\<lambda>i. M ! i ! i) [0 ..< min (length M) (length r)])"

section \<open>The exponential model and the confidence half-widths\<close>

text \<open>\<open>exp_growth(x, a, b) = a * np.exp(b * x)\<close>.\<close>

definition exp_growth :: "fval \<Rightarrow> fval \<Rightarrow> fval \<Rightarrow> fval" where
  "exp_growth x a b = fmul a (fexp (fmul b x))"

text \<open>
  \<open>scipy.stats.t.ppf(q, df)\<close>. The quantile function of the Student-t distribution for a
  positive number of degrees of freedom is a parameter \<open>quantile\<close> of the model; where the
  shape argument is not positive scipy returns nan.
\<close>

definition t_ppf :: "(real \<Rightarrow> nat \<Rightarrow> fval) \<Rightarrow> real \<Rightarrow> int \<Rightarrow> fval" where
  "t_ppf quantile q df = (if df \<le> 0 then NaN else quantile q (nat df))"

text \<open>
  \<open>ydata - exp_growth(xdata, *popt)\<close> with \<open>ydata\<close> a Series and \<open>xdata\<close> an array, as
  \<open>predict_future\<close> passes them: arrays of one length are paired off, an \<open>xdata\<close> of one
  entry is broadcast, any other pair of lengths is a ValueError.
\<close>

definition broadcast_x :: "fval list \<Rightarrow> nat \<Rightarrow> error + fval list" where
  "broadcast_x xdata n =
     (if length xdata = n then Inr xdata
      else if length xdata = 1 then Inr (replicate n (hd xdata))
      else Inl ValueError)"

text \<open>
  \<open>err_ranges(xdata, ydata, popt, pcov, alpha=0.05)\<close>, for \<open>ydata\<close> a pandas Series as in
  its one call (for an array holding NaN \<open>np.sum\<close> would not skip it). Unpacking \<open>*popt\<close>
  into the two parameters of \<open>exp_growth\<close> is a TypeError unless \<open>popt\<close> has two
  entries.
\<close>

definition err_ranges ::
  "(real \<Rightarrow> nat \<Rightarrow> fval) \<Rightarrow> fval list \<Rightarrow> fval list \<Rightarrow> fval list \<Rightarrow> fval list list \<Rightarrow> real
     \<Rightarrow> error + fval list" where
  "err_ranges quantile xdata ydata popt pcov alpha =
     (let n = int (length ydata);
          m = int (length popt);
          df = max 0 (n - m);
          tval = fmul (Fin (- 1)) (t_ppf quantile (alpha / 2) df)
      in case popt of
           [a, b] \<Rightarrow>
             (case broadcast_x xdata (length ydata) of
                Inl e \<Rightarrow> Inl e
              | Inr xs \<Rightarrow>
                  let residuals = map2 (\<lambda>y x. fsub y (exp_growth x a b)) ydata xs;
                      stdev = fsqrt (fdiv (series_sum (map fsquare residuals)) (Fin (of_int df)))
                  in Inr (map (\<lambda>v. fmul (fmul tval stdev) (fsqrt v)) (diag pcov)))
         | _ \<Rightarrow> Inl TypeError)"

text \<open>The sum of squared residuals of real observations against the model, in real arithmetic.\<close>

definition sum_squared_residuals :: "real list \<Rightarrow> real list \<Rightarrow> real \<Rightarrow> real \<Rightarrow> real" where
  "sum_squared_residuals xs ys a b = (\<Sum>(x, y) \<leftarrow> zip xs ys. (y - a * exp (b * x))\<^sup>2)"

section \<open>Tables\<close>

text \<open>
  The wide table \<open>pd.read_csv(filename, skiprows=4)\<close> delivers: the column names of the
  header, which \<open>read_csv\<close> keeps distinct, and the rows below it. A cell is the token that
  stands in the field, \<open>None\<close> for a field that is empty; a row shorter than the header is
  empty from its end on. Reading the file is outside the model: the functions below take
  the table in place of the file name.
\<close>

type_synonym cell = "string option"

record wide_table =
  columns :: "string list"
  rows :: "cell list list"

definition cell_at :: "cell list \<Rightarrow> nat \<Rightarrow> cell" where
  "cell_at r j = (if j < length r then r ! j else None)"

fun index_of :: "'a \<Rightarrow> 'a list \<Rightarrow> nat option" where
  "index_of x [] = None"
| "index_of x (y # ys) = (if x = y then Some 0 else map_option Suc (index_of x ys))"

text \<open>\<open>df.drop(names, axis=1)\<close>: a KeyError when one of the names is not a column.\<close>

definition drop_columns :: "string list \<Rightarrow> wide_table \<Rightarrow> error + wide_table" where
  "drop_columns names T =
     (if \<not> set names \<subseteq> set (columns T) then Inl KeyError
      else let keep = filter (\<lambda>j. columns T ! j \<notin> set names) [0 ..< length (columns T)]
           in Inr \<lparr>columns = map (\<lambda>j. columns T ! j) keep,
                   rows = map (\<lambda>r. map (cell_at r) keep) (rows T)\<rparr>)"

text \<open>\<open>df.rename(columns={old: new})\<close>.\<close>

definition rename_column :: "string \<Rightarrow> string \<Rightarrow> wide_table \<Rightarrow> wide_table" where
  "rename_column old new T = T\<lparr>columns := map (\<lambda>c. if c = old then new else c) (columns T)\<rparr>"

text \<open>
  \<open>df[df[cname].isin(countries) & df[iname].isin(indicators)]\<close>: reading a column that
  is not there is a KeyError; an empty cell is in no list.
\<close>

definition isin :: "cell \<Rightarrow> string list \<Rightarrow> bool" where
  "isin c names = (case c of None \<Rightarrow> False | Some s \<Rightarrow> s \<in> set names)"

text \<open>
  Where the two id columns stand. A name that is no column is a KeyError. A name that two
  columns carry makes \<open>df[name]\<close> a table and not a column: the mask built from it and the
  melt by it raise a ValueError.
\<close>

definition named_twice :: "string \<Rightarrow> string list \<Rightarrow> bool" where
  "named_twice name cols = (1 < length (filter (\<lambda>c. c = name) cols))"

definition id_positions :: "string \<Rightarrow> string \<Rightarrow> string list \<Rightarrow> error + (nat \<times> nat)" where
  "id_positions cname iname cols =
     (case index_of cname cols of
        None \<Rightarrow> Inl KeyError
      | Some ci \<Rightarrow>
          (case index_of iname cols of
             None \<Rightarrow> Inl KeyError
           | Some ii \<Rightarrow>
               if named_twice cname cols \<or> named_twice iname cols then Inl ValueError
               else Inr (ci, ii)))"

definition isin_rows ::
  "string \<Rightarrow> string list \<Rightarrow> string \<Rightarrow> string list \<Rightarrow> wide_table \<Rightarrow> error + wide_table" where
  "isin_rows cname countries iname indicators T =
     (case id_positions cname iname (columns T) of
        Inl e \<Rightarrow> Inl e
      | Inr (ci, ii) \<Rightarrow>
          Inr (T\<lparr>rows := filter (\<lambda>r. isin (cell_at r ci) countries \<and>
                                        isin (cell_at r ii) indicators) (rows T)\<rparr>))"

text \<open>
  The long table: one row for every (Country, Indicator Name, Year, Value). After
  \<open>melt\<close> the Year is the name of the column the value stood in and the Value the cell;
  after the coercion both are numbers or missing.
\<close>

record ('y, 'v) long_row =
  country :: cell
  indicator :: cell
  year :: 'y
  val :: 'v

text \<open>
  \<open>df.melt(id_vars=['Country', 'Indicator Name'], var_name='Year', value_name='Value')\<close>:
  a KeyError when an id column is not there, a ValueError when one is there twice or
  when the table has a column called Value already (from pandas 2.0 on; a warning before);
  every other column is melted, column after column.
\<close>

definition melt :: "wide_table \<Rightarrow> error + (string, cell) long_row list" where
  "melt T =
     (case id_positions ''Country'' ''Indicator Name'' (columns T) of
        Inl e \<Rightarrow> Inl e
      | Inr (ci, ii) \<Rightarrow>
          if ''Value'' \<in> set (columns T) then Inl ValueError
          else Inr (concat (map (\<lambda>j. map (\<lambda>r. \<lparr>country = cell_at r ci, indicator = cell_at r ii,
                                                  year = columns T ! j, val = cell_at r j\<rparr>) (rows T))
                      (filter (\<lambda>j. columns T ! j \<noteq> ''Country'' \<and> columns T ! j \<noteq> ''Indicator Name'')
                         [0 ..< length (columns T)]))))"

text \<open>
  \<open>pd.to_numeric(column, errors=...)\<close>. The reading \<open>num\<close> of a token as a number is a
  parameter (\<open>None\<close> for a token that is no number), the same for a cell \<open>read_csv\<close> has
  read as a number already; an empty cell stays missing. A token that is no number is a
  ValueError with \<open>errors='raise'\<close>, the default, and a missing value with
  \<open>errors='coerce'\<close>. Numbers are real numbers here; an infinite value is not modelled.
\<close>

datatype on_error = Raise | Coerce

definition numeric_cell :: "(string \<Rightarrow> real option) \<Rightarrow> cell \<Rightarrow> real option" where
  "numeric_cell num c = (case c of None \<Rightarrow> None | Some s \<Rightarrow> num s)"

definition to_numeric :: "on_error \<Rightarrow> (string \<Rightarrow> real option) \<Rightarrow> cell list \<Rightarrow> error + real option list" where
  "to_numeric errors num column =
     (if errors = Raise \<and> (\<exists>c \<in> set column. c \<noteq> None \<and> numeric_cell num c = None)
      then Inl ValueError
      else Inr (map (numeric_cell num) column))"

text \<open>
  The two coercions of \<open>data_read\<close> and of \<open>filter_Methane_emission_data\<close>, both with
  \<open>errors='coerce'\<close>: first the Year column, then the Value column of the long table.
  \<open>coerce\<close> is what they make of one row.
\<close>

definition coerce :: "(string \<Rightarrow> real option) \<Rightarrow> (string, cell) long_row \<Rightarrow> (real option, real option) long_row" where
  "coerce num r = \<lparr>country = country r, indicator = indicator r,
                   year = numeric_cell num (Some (year r)), val = numeric_cell num (val r)\<rparr>"

definition coerce_long ::
  "(string \<Rightarrow> real option) \<Rightarrow> (string, cell) long_row list
     \<Rightarrow> error + (real option, real option) long_row list" where
  "coerce_long num long =
     (case to_numeric Coerce num (map (\<lambda>r. Some (year r)) long) of
        Inl e \<Rightarrow> Inl e
      | Inr ys \<Rightarrow>
          (case to_numeric Coerce num (map val long) of
             Inl e \<Rightarrow> Inl e
           | Inr vs \<Rightarrow>
               Inr (map (\<lambda>(r, y, v). \<lparr>country = country r, indicator = indicator r,
                                       year = y, val = v\<rparr>) (zip long (zip ys vs)))))"

text \<open>
  A pivoted table: the keys of its rows, the keys of its columns and its cells, row after
  row; a missing cell (NaN) is \<open>None\<close>.
\<close>

record ('r, 'c) frame =
  row_keys :: "'r list"
  col_keys :: "'c list"
  cells :: "real option list list"

text \<open>The table made of the columns at the positions \<open>js\<close>, in this order.\<close>

definition select_columns :: "nat list \<Rightarrow> ('r, 'c) frame \<Rightarrow> ('r, 'c) frame" where
  "select_columns js F =
     F\<lparr>col_keys := map (\<lambda>j. col_keys F ! j) js, cells := map (\<lambda>r. map (\<lambda>j. r ! j) js) (cells F)\<rparr>"

text \<open>\<open>df.dropna(how='all', axis=1)\<close>: a column stays when one of its cells is not missing.\<close>

definition all_missing :: "('r, 'c) frame \<Rightarrow> nat \<Rightarrow> bool" where
  "all_missing F j = (\<forall>r \<in> set (cells F). r ! j = None)"

definition dropna_columns :: "('r, 'c) frame \<Rightarrow> ('r, 'c) frame" where
  "dropna_columns F = select_columns (filter (\<lambda>j. \<not> all_missing F j) [0 ..< length (col_keys F)]) F"

text \<open>
  \<open>df.pivot_table(index=..., columns=..., values='Value')\<close> with its defaults
  (\<open>aggfunc='mean'\<close>, \<open>dropna=True\<close>): the rows are grouped by the index and column keys, a
  row with a missing key belonging to no group; a group's value is the mean of its values
  that are not missing (rounding is not modelled); groups without such a value are left
  out; the keys that remain are sorted and a cell without a group is missing; at the end
  the columns that are missing throughout are removed.
\<close>

definition nanmean :: "real option list \<Rightarrow> real option" where
  "nanmean vs = (case List.map_filter id vs of [] \<Rightarrow> None
                 | xs \<Rightarrow> Some (sum_list xs / real (length xs)))"

definition group_mean ::
  "('a \<Rightarrow> 'r option) \<Rightarrow> ('a \<Rightarrow> 'c option) \<Rightarrow> ('a \<Rightarrow> real option) \<Rightarrow> 'a list \<Rightarrow> 'r \<Rightarrow> 'c \<Rightarrow> real option" where
  "group_mean idx col v rs i c =
     nanmean (map v (filter (\<lambda>r. idx r = Some i \<and> col r = Some c) rs))"

definition group_keys ::
  "('a \<Rightarrow> 'r option) \<Rightarrow> ('a \<Rightarrow> 'c option) \<Rightarrow> ('a \<Rightarrow> real option) \<Rightarrow> 'a list \<Rightarrow> ('r \<times> 'c) list" where
  "group_keys idx col v rs =
     filter (\<lambda>(i, c). group_mean idx col v rs i c \<noteq> None)
       (List.map_filter (\<lambda>r. case (idx r, col r) of (Some i, Some c) \<Rightarrow> Some (i, c) | _ \<Rightarrow> None) rs)"

definition pivot_table ::
  "('a \<Rightarrow> 'r option) \<Rightarrow> ('a \<Rightarrow> 'c option) \<Rightarrow> ('a \<Rightarrow> real option) \<Rightarrow> 'a list
     \<Rightarrow> ('r :: linorder, 'c :: linorder) frame" where
  "pivot_table idx col v rs =
     (let ks = group_keys idx col v rs;
          rk = sort (remdups (map fst ks));
          ck = sort (remdups (map snd ks))
      in dropna_columns
           \<lparr>row_keys = rk, col_keys = ck,
            cells = map (\<lambda>i. map (\<lambda>c. group_mean idx col v rs i c) ck) rk\<rparr>)"

text \<open>The keys of the two pivots of \<open>data_read\<close>.\<close>

definition country_indicator :: "('y, 'v) long_row \<Rightarrow> (string \<times> string) option" where
  "country_indicator r =
     (case (country r, indicator r) of (Some c, Some i) \<Rightarrow> Some (c, i) | _ \<Rightarrow> None)"

definition year_indicator :: "(real option, 'v) long_row \<Rightarrow> (real \<times> string) option" where
  "year_indicator r =
     (case (year r, indicator r) of (Some y, Some i) \<Rightarrow> Some (y, i) | _ \<Rightarrow> None)"

section \<open>Reading and subsetting\<close>

text \<open>\<open>data_read(filename)\<close>, from the table read to the two cleaned pivots.\<close>

definition data_read ::
  "(string \<Rightarrow> real option) \<Rightarrow> wide_table
     \<Rightarrow> error + ((string \<times> string, real) frame \<times> (real \<times> string, string) frame)" where
  "data_read num T =
     (case drop_columns [''Country Code'', ''Indicator Code'', ''Unnamed: 66''] T of
        Inl e \<Rightarrow> Inl e
      | Inr df \<Rightarrow>
          (case melt (rename_column ''Country Name'' ''Country'' df) of
             Inl e \<Rightarrow> Inl e
           | Inr long \<Rightarrow>
               (case coerce_long num long of
                  Inl e \<Rightarrow> Inl e
                | Inr df \<Rightarrow>
                    let df_years = pivot_table country_indicator year val df;
                        df_countries = pivot_table year_indicator country val df
                    in Inr (dropna_columns df_years, dropna_columns df_countries))))"

text \<open>
  \<open>df_years.loc[(countries, indicators), years]\<close>.

  Rows (\<open>MultiIndex.get_locs\<close>), level after level. A requested label that occurs nowhere
  in its level of the index is a KeyError from pandas 2.0 on and is passed over, with a
  warning, before; \<open>strict\<close> says which. A list without a label that occurs ends the
  lookup with no row. The rows of a level are those that carry one of its labels; where
  both levels have rows and no row is in both, the lookup is a KeyError. The rows in
  both come in the order of the request: a stable sort by the first place of the country,
  then of the indicator, in the lists.

  Columns: every requested label must be a column, else a KeyError; the columns come in
  the order of the request.
\<close>

definition request_rank :: "'a \<Rightarrow> 'a list \<Rightarrow> nat" where
  "request_rank x xs = (case index_of x xs of None \<Rightarrow> length xs | Some k \<Rightarrow> k)"

definition level_rows :: "('k \<Rightarrow> string) \<Rightarrow> string list \<Rightarrow> ('k, 'c) frame \<Rightarrow> nat list" where
  "level_rows level labels F =
     filter (\<lambda>p. level (row_keys F ! p) \<in> set labels) [0 ..< length (row_keys F)]"

definition selected_rows :: "string list \<Rightarrow> string list \<Rightarrow> (string \<times> string, 'c) frame \<Rightarrow> nat list" where
  "selected_rows countries indicators F =
     sort_key (\<lambda>p. (request_rank (fst (row_keys F ! p)) countries,
                     request_rank (snd (row_keys F ! p)) indicators))
       (filter (\<lambda>p. p \<in> set (level_rows snd indicators F)) (level_rows fst countries F))"

definition take_rows :: "nat list \<Rightarrow> ('r, 'c) frame \<Rightarrow> ('r, 'c) frame" where
  "take_rows ps F = F\<lparr>row_keys := map (\<lambda>p. row_keys F ! p) ps, cells := map (\<lambda>p. cells F ! p) ps\<rparr>"

definition loc_rows ::
  "bool \<Rightarrow> string list \<Rightarrow> string list \<Rightarrow> (string \<times> string, 'c) frame
     \<Rightarrow> error + (string \<times> string, 'c) frame" where
  "loc_rows strict countries indicators F =
     (if strict \<and> \<not> set countries \<subseteq> fst ` set (row_keys F) then Inl KeyError
      else if level_rows fst countries F = [] then Inr (take_rows [] F)
      else if strict \<and> \<not> set indicators \<subseteq> snd ` set (row_keys F) then Inl KeyError
      else if level_rows snd indicators F = [] then Inr (take_rows [] F)
      else if selected_rows countries indicators F = [] then Inl KeyError
      else Inr (take_rows (selected_rows countries indicators F) F))"

definition positions :: "'a \<Rightarrow> 'a list \<Rightarrow> nat list" where
  "positions x xs = filter (\<lambda>j. xs ! j = x) [0 ..< length xs]"

definition loc_columns :: "'c list \<Rightarrow> ('r, 'c) frame \<Rightarrow> error + ('r, 'c) frame" where
  "loc_columns labels F =
     (if \<not> set labels \<subseteq> set (col_keys F) then Inl KeyError
      else Inr (select_columns (concat (map (\<lambda>y. positions y (col_keys F)) labels)) F))"

text \<open>\<open>df.transpose()\<close>.\<close>

definition transpose_frame :: "('r, 'c) frame \<Rightarrow> ('c, 'r) frame" where
  "transpose_frame F =
     \<lparr>row_keys = col_keys F, col_keys = row_keys F,
      cells = map (\<lambda>j. map (\<lambda>r. r ! j) (cells F)) [0 ..< length (col_keys F)]\<rparr>"

text \<open>\<open>subset_data(df_years, countries, indicators)\<close>; \<open>years = list(range(1990, 2019))\<close>.\<close>

definition years :: "real list" where
  "years = map real [1990 ..< 2019]"

definition subset_data ::
  "bool \<Rightarrow> (string \<times> string, real) frame \<Rightarrow> string list \<Rightarrow> string list
     \<Rightarrow> error + (real, string \<times> string) frame" where
  "subset_data strict df_years countries indicators =
     (case loc_rows strict countries indicators df_years of
        Inl e \<Rightarrow> Inl e
      | Inr df1 \<Rightarrow>
          (case loc_columns years df1 of
             Inl e \<Rightarrow> Inl e
           | Inr df \<Rightarrow> Inr (transpose_frame df)))"

section \<open>The filtered slice and the batch fit\<close>

text \<open>
  \<open>df.loc[:, start_year:end_year]\<close> on the sorted, duplicate-free column keys a pivot
  has: the columns whose label lies in the closed range.
\<close>

definition loc_slice :: "int \<Rightarrow> int \<Rightarrow> ('r, real) frame \<Rightarrow> ('r, real) frame" where
  "loc_slice start_year end_year F =
     select_columns (filter (\<lambda>j. of_int start_year \<le> col_keys F ! j \<and> col_keys F ! j \<le> of_int end_year)
                       [0 ..< length (col_keys F)]) F"

text \<open>\<open>filter_Methane_emission_data(filename, countries, indicators, start_year, end_year)\<close>.\<close>

definition filter_Methane_emission_data ::
  "(string \<Rightarrow> real option) \<Rightarrow> wide_table \<Rightarrow> string list \<Rightarrow> string list \<Rightarrow> int \<Rightarrow> int
     \<Rightarrow> error + (string \<times> string, real) frame" where
  "filter_Methane_emission_data num T countries indicators start_year end_year =
     (case drop_columns [''Country Code'', ''Indicator Code'', ''Unnamed: 66''] T of
        Inl e \<Rightarrow> Inl e
      | Inr df \<Rightarrow>
          (case isin_rows ''Country'' countries ''Indicator Name'' indicators
                  (rename_column ''Country Name'' ''Country'' df) of
             Inl e \<Rightarrow> Inl e
           | Inr df \<Rightarrow>
               (case melt df of
                  Inl e \<Rightarrow> Inl e
                | Inr long \<Rightarrow>
                    (case coerce_long num long of
                       Inl e \<Rightarrow> Inl e
                     | Inr df \<Rightarrow>
                         Inr (loc_slice start_year end_year
                                (pivot_table country_indicator year val df))))))"

text \<open>\<open>np.arange(n)\<close> and \<open>data.iloc[i]\<close>, the i-th row as a series of floats.\<close>

definition arange :: "nat \<Rightarrow> fval list" where
  "arange n = map (\<lambda>k. Fin (real k)) [0 ..< n]"

definition to_fval :: "real option \<Rightarrow> fval" where
  "to_fval v = (case v of None \<Rightarrow> NaN | Some x \<Rightarrow> Fin x)"

definition iloc :: "('r, 'c) frame \<Rightarrow> nat \<Rightarrow> fval list" where
  "iloc F i = map to_fval (cells F ! i)"

text \<open>
  The fitting loop of \<open>predict_future\<close>, \<open>for i in range(data.shape[0])\<close>, over the rows
  still to do and the array \<open>growth_rate\<close>. \<open>curve_fit\<close> is the parameter
  \<open>scipy.optimize.curve_fit(exp_growth, ., .)\<close>: given the x and y values it raises or
  returns \<open>(popt, pcov)\<close>. \<open>growth_rate[i] = popt[1]\<close> writes the number into the whole of
  row i. The half-widths \<open>ci\<close> are computed and not used again.
\<close>

type_synonym fitter = "fval list \<Rightarrow> fval list \<Rightarrow> error + (fval list \<times> fval list list)"

fun fit_rows ::
  "fitter \<Rightarrow> (real \<Rightarrow> nat \<Rightarrow> fval) \<Rightarrow> ('r, 'c) frame \<Rightarrow> nat list \<Rightarrow> fval list list
     \<Rightarrow> error + fval list list" where
  "fit_rows curve_fit quantile data [] growth_rate = Inr growth_rate"
| "fit_rows curve_fit quantile data (i # todo) growth_rate =
     (let n = length (col_keys data) in
      case curve_fit (arange n) (iloc data i) of
        Inl e \<Rightarrow> Inl e
      | Inr (popt, pcov) \<Rightarrow>
          (case err_ranges quantile (arange n) (iloc data i) popt pcov 0.05 of
             Inl e \<Rightarrow> Inl e
           | Inr ci \<Rightarrow>
               if length popt \<le> 1 then Inl IndexError
               else fit_rows curve_fit quantile data todo
                      (growth_rate[i := replicate n (popt ! 1)])))"

text \<open>
  \<open>predict_future(Methane_emission_data, countries, indicators, start_year, end_year)\<close>.
  The plot it draws before it returns is not part of the model.
\<close>

definition predict_future ::
  "fitter \<Rightarrow> (real \<Rightarrow> nat \<Rightarrow> fval) \<Rightarrow> (string \<Rightarrow> real option) \<Rightarrow> wide_table \<Rightarrow> string list \<Rightarrow> string list
     \<Rightarrow> int \<Rightarrow> int \<Rightarrow> error + fval list list" where
  "predict_future curve_fit quantile num T countries indicators start_year end_year =
     (case filter_Methane_emission_data num T countries indicators start_year end_year of
        Inl e \<Rightarrow> Inl e
      | Inr data \<Rightarrow>
          fit_rows curve_fit quantile data [0 ..< length (row_keys data)]
            (replicate (length (row_keys data)) (replicate (length (col_keys data)) (Fin 0))))"

text \<open>
  The restriction of the wide table to the requested countries and indicators, said
  without the mask of the code: a row stays when its country is one of \<open>countries\<close> and
  its indicator one of \<open>indicators\<close>. The country of a row stands in the column
  Country Name, or in Country where the table has no Country Name.
\<close>

definition column_cell :: "wide_table \<Rightarrow> string \<Rightarrow> cell list \<Rightarrow> cell" where
  "column_cell T name r = (case index_of name (columns T) of None \<Rightarrow> None | Some j \<Rightarrow> cell_at r j)"

definition requested_rows :: "string list \<Rightarrow> string list \<Rightarrow> wide_table \<Rightarrow> wide_table" where
  "requested_rows countries indicators T =
     T\<lparr>rows := filter
          (\<lambda>r. column_cell T (if ''Country Name'' \<in> set (columns T) then ''Country Name''
                               else ''Country'') r \<in> Some ` set countries \<and>
               column_cell T ''Indicator Name'' r \<in> Some ` set indicators)
          (rows T)\<rparr>"

section \<open>A small table\<close>

text \<open>
  Two countries, one indicator, three years; one value is the token \<open>..\<close> and one is
  empty. \<open>example_num\<close> reads the tokens of this table that are numbers.
\<close>

definition example_table :: wide_table where
  "example_table =
     \<lparr>columns = [''Country Name'', ''Country Code'', ''Indicator Name'', ''Indicator Code'',
                 ''1990'', ''1991'', ''1992'', ''Unnamed: 66''],
      rows = [[Some ''India'', Some ''IND'', Some ''CO2'', Some ''EN.ATM'', Some ''0'', Some ''0'', Some ''2'', None],
              [Some ''China'', Some ''CHN'', Some ''CO2'', Some ''EN.ATM'', Some ''..'', Some ''1'', None, None]]\<rparr>"

definition example_num :: "string \<Rightarrow> real option" where
  "example_num = map_of [(''1990'', 1990), (''1991'', 1991), (''1992'', 1992), (''0'', 0), (''1'', 1), (''2'', 2)]"

text \<open>The long table of the example after the coercion.\<close>

definition example_long :: "(real option, real option) long_row list" where
  "example_long =
     [\<lparr>country = Some ''India'', indicator = Some ''CO2'', year = Some 1990, val = Some 0\<rparr>,
      \<lparr>country = Some ''China'', indicator = Some ''CO2'', year = Some 1990, val = None\<rparr>,
      \<lparr>country = Some ''India'', indicator = Some ''CO2'', year = Some 1991, val = Some 0\<rparr>,
      \<lparr>country = Some ''China'', indicator = Some ''CO2'', year = Some 1991, val = Some 1\<rparr>,
      \<lparr>country = Some ''India'', indicator = Some ''CO2'', year = Some 1992, val = Some 2\<rparr>,
      \<lparr>country = Some ''China'', indicator = Some ''CO2'', year = Some 1992, val = None\<rparr>]"

text \<open>The two views \<open>data_read\<close> makes of the example.\<close>

definition example_years_view :: "(string \<times> string, real) frame" where
  "example_years_view =
     \<lparr>row_keys = [(''China'', ''CO2''), (''India'', ''CO2'')], col_keys = [1990, 1991, 1992],
      cells = [[None, Some 1, None], [Some 0, Some 0, Some 2]]\<rparr>"

definition example_countries_view :: "(real \<times> string, string) frame" where
  "example_countries_view =
     \<lparr>row_keys = [(1990, ''CO2''), (1991, ''CO2''), (1992, ''CO2'')], col_keys = [''China'', ''India''],
      cells = [[None, Some 0], [Some 1, Some 0], [None, Some 2]]\<rparr>"

text \<open>
  Three years-as-columns views for \<open>subset_data\<close>: one that has a single year, one over
  the years 1990 to 2018 with both indicators of both countries, and one over these years
  whose two rows are of different countries and indicators.
\<close>

definition one_year_view :: "(string \<times> string, real) frame" where
  "one_year_view = \<lparr>row_keys = [(''India'', ''CO2'')], col_keys = [1990], cells = [[Some 1]]\<rparr>"

definition four_rows_view :: "(string \<times> string, real) frame" where
  "four_rows_view =
     \<lparr>row_keys = [(''China'', ''CH4''), (''China'', ''CO2''), (''India'', ''CH4''), (''India'', ''CO2'')],
      col_keys = years,
      cells = [replicate 29 (Some 1), replicate 29 (Some 2), replicate 29 (Some 3), replicate 29 (Some 4)]\<rparr>"

definition two_rows_view :: "(string \<times> string, real) frame" where
  "two_rows_view =
     \<lparr>row_keys = [(''China'', ''CH4''), (''India'', ''CO2'')], col_keys = years,
      cells = [replicate 29 (Some 1), replicate 29 (Some 2)]\<rparr>"

text \<open>
  For the batch fit: the slice of the example for India, and two stand-ins for
  \<open>curve_fit\<close> that return the same parameters with different covariance matrices. The
  quantile is the Student-t 0.025 quantile for one degree of freedom, to three decimals.
\<close>

definition india_long :: "(real option, real option) long_row list" where
  "india_long =
     [\<lparr>country = Some ''India'', indicator = Some ''CO2'', year = Some 1990, val = Some 0\<rparr>,
      \<lparr>country = Some ''India'', indicator = Some ''CO2'', year = Some 1991, val = Some 0\<rparr>,
      \<lparr>country = Some ''India'', indicator = Some ''CO2'', year = Some 1992, val = Some 2\<rparr>]"

definition india_slice :: "(string \<times> string, real) frame" where
  "india_slice =
     \<lparr>row_keys = [(''India'', ''CO2'')], col_keys = [1990, 1991, 1992],
      cells = [[Some 0, Some 0, Some 2]]\<rparr>"

definition fit_narrow :: fitter where
  "fit_narrow xs ys = Inr ([Fin 0, Fin 5], [[Fin 1, Fin 0], [Fin 0, Fin 1]])"

definition fit_wide :: fitter where
  "fit_wide xs ys = Inr ([Fin 0, Fin 5], [[Fin 4, Fin 0], [Fin 0, Fin 4]])"

definition example_quantile :: "real \<Rightarrow> nat \<Rightarrow> fval" where
  "example_quantile q df = Fin (- 12.706)"

section \<open>Properties of the confidence half-widths\<close>

lemma series_sum_Fin_aux:
  "foldl fadd (Fin s) (filter (\<lambda>v. v \<noteq> NaN) (map Fin rs)) = Fin (s + sum_list rs)"
  by (induction rs arbitrary: s) (simp_all add: add.assoc)

lemma series_sum_Fin: "series_sum (map Fin rs) = Fin (sum_list rs)"
  using series_sum_Fin_aux [of 0 rs] by (simp add: series_sum_def)

lemma squared_residuals_Fin:
  "length xs = length ys \<Longrightarrow>
   map fsquare (map2 (\<lambda>y x. fsub y (exp_growth x (Fin a) (Fin b))) (map Fin ys) (map Fin xs))
     = map Fin (map (\<lambda>(x, y). (y - a * exp (b * x))\<^sup>2) (zip xs ys))"
proof (induction xs ys rule: list_induct2)
  case Nil
  then show ?case by simp
next
  case (Cons x xs y ys)
  then show ?case
    by (simp add: fsquare_def exp_growth_def power2_eq_square)
qed

lemma sum_squared_residuals_map2:
  "sum_squared_residuals xs ys a b = sum_list (map (\<lambda>(x, y). (y - a * exp (b * x))\<^sup>2) (zip xs ys))"
  by (simp add: sum_squared_residuals_def)

lemma sum_squared_residuals_nonneg: "0 \<le> sum_squared_residuals xs ys a b"
  unfolding sum_squared_residuals_map2 by (rule sum_list_nonneg) auto

lemma err_ranges_pair:
  "length xdata = length ydata \<Longrightarrow>
   err_ranges quantile xdata ydata [a, b] pcov alpha =
     Inr (map (\<lambda>v. fmul (fmul (fmul (Fin (- 1)) (t_ppf quantile (alpha / 2) (max 0 (int (length ydata) - 2))))
                          (fsqrt (fdiv (series_sum (map fsquare
                                     (map2 (\<lambda>y x. fsub y (exp_growth x a b)) ydata xdata)))
                                   (Fin (of_int (max 0 (int (length ydata) - 2)))))))
                    (fsqrt v)) (diag pcov))"
  by (simp add: err_ranges_def broadcast_x_def Let_def)

text \<open>
  Claim C1, as stated, speaks of a parameter vector of any length m. \<open>err_ranges\<close> hands
  the parameters to \<open>exp_growth\<close>, which takes two: with three parameters the call is a
  TypeError and no half-width is returned.
\<close>

theorem err_ranges_formula_counterexample:
  "err_ranges (\<lambda>q d. Fin (- 3)) [Fin 0, Fin 1, Fin 2, Fin 3] [Fin 1, Fin 3, Fin 3, Fin 1]
       [Fin 1, Fin 0, Fin 0] [[Fin 1, Fin 0, Fin 0], [Fin 0, Fin 4, Fin 0], [Fin 0, Fin 0, Fin 1]] 0.05
     = Inl TypeError"
  by (simp add: err_ranges_def)

text \<open>
  Claim C1, amended. For n finite observations \<open>ys\<close> with as many x values, a fitted
  parameter vector \<open>popt = [a, b]\<close> of the m = 2 parameters of the model, n > m, a finite
  Student-t quantile \<open>t\<close> at \<open>alpha / 2\<close> for \<open>df = n - m\<close> degrees of freedom and finite
  variances \<open>vs\<close> on the diagonal of \<open>pcov\<close>, \<open>err_ranges\<close> returns for every \<open>v\<close> of
  them the half-width \<open>- t * sqrt (sum of squared residuals / df) * sqrt v\<close>: the
  two-tailed critical value \<open>- t\<close> times the residual standard deviation times the
  standard error of the parameter, in real arithmetic.
\<close>

theorem err_ranges_formula:
  assumes "length xs = length ys" and "popt = [Fin a, Fin b]" and "length popt < length ys"
    and "quantile (alpha / 2) (length ys - length popt) = Fin t"
    and "diag pcov = map Fin vs" and "\<forall>v \<in> set vs. 0 \<le> v"
  shows "err_ranges quantile (map Fin xs) (map Fin ys) popt pcov alpha =
           Inr (map (\<lambda>v. Fin (- t * sqrt (sum_squared_residuals xs ys a b
                                            / real (length ys - length popt)) * sqrt v)) vs)"
proof -
  have ssr: "series_sum (map fsquare (map2 (\<lambda>y x. fsub y (exp_growth x (Fin a) (Fin b)))
                 (map Fin ys) (map Fin xs))) = Fin (sum_squared_residuals xs ys a b)"
    using assms(1) by (simp only: squared_residuals_Fin series_sum_Fin sum_squared_residuals_map2)
  have len: "length (map Fin xs) = length (map Fin ys)"
    using assms(1) by simp
  from assms(2,3) have n: "2 < length ys"
    by simp
  then have df: "max 0 (int (length (map Fin ys)) - 2) = int (length ys - 2)"
    by simp
  have pos: "0 < real (length ys - 2)"
    using n by simp
  have "nat (int (length ys) - 2) = length ys - length popt"
    using assms(2) by simp
  with assms(4) n have q: "t_ppf quantile (alpha / 2) (int (length ys - 2)) = Fin t"
    by (simp add: t_ppf_def)
  have stdev: "fsqrt (fdiv (Fin (sum_squared_residuals xs ys a b)) (Fin (of_int (int (length ys - 2)))))
      = Fin (sqrt (sum_squared_residuals xs ys a b / real (length ys - 2)))"
    using pos sum_squared_residuals_nonneg [of xs ys a b] by (simp add: not_less)
  have "map (\<lambda>v. fmul (fmul (fmul (Fin (- 1)) (Fin t))
                    (Fin (sqrt (sum_squared_residuals xs ys a b / real (length ys - 2))))) (fsqrt v))
          (map Fin vs)
        = map (\<lambda>v. Fin (- t * sqrt (sum_squared_residuals xs ys a b / real (length ys - 2)) * sqrt v)) vs"
    using assms(6) by (simp add: not_less)
  then show ?thesis
    unfolding assms(2) err_ranges_pair [OF len] ssr df q stdev assms(5)
    by (simp add: numeral_2_eq_2)
qed

text \<open>
  Four observations 1, 3, 3, 1 at x = 0, 1, 2, 3 against the model with a = 1, b = 0: two
  degrees of freedom, squared residuals 0, 4, 4, 0, residual standard deviation
  sqrt (8 / 2) = 2; with a lower quantile of -3 and the covariance diagonal 1, 4 the
  half-widths are 6 and 12.
\<close>

theorem err_ranges_formula_witness:
  "err_ranges (\<lambda>q d. Fin (- 3)) (map Fin [0, 1, 2, 3]) (map Fin [1, 3, 3, 1]) [Fin 1, Fin 0]
       [[Fin 1, Fin 0], [Fin 0, Fin 4]] 0.05 = Inr [Fin 6, Fin 12]"
proof -
  have h: "length [0, 1, 2, 3 :: real] = length [1, 3, 3, 1 :: real]"
    "length [Fin 1, Fin 0] < length [1, 3, 3, 1 :: real]"
    "(\<lambda>q d. Fin (- 3)) (0.05 / 2) (length [1, 3, 3, 1 :: real] - length [Fin 1, Fin 0]) = Fin (- 3)"
    "diag [[Fin 1, Fin 0], [Fin 0, Fin 4]] = map Fin [1, 4]"
    "\<forall>v \<in> set [1, 4 :: real]. 0 \<le> v"
    by (simp_all add: diag_def)
  from err_ranges_formula [OF h(1) refl h(2) h(3) h(4) h(5)]
  show ?thesis
    by (simp add: sum_squared_residuals_def)
qed

lemma fmul_NaN_right: "fmul x NaN = NaN"
  by (cases x) simp_all

text \<open>
  With as many observations as parameters the degrees of freedom are 0, the quantile is
  NaN and so is every half-width, whatever the data: nothing is raised and no half-width
  is infinite.
\<close>

lemma err_ranges_zero_dof:
  assumes "length ydata = 2" and "length xdata = 2"
  shows "err_ranges quantile xdata ydata [a, b] pcov alpha = Inr (map (\<lambda>v. NaN) (diag pcov))"
  using assms by (simp add: err_ranges_def t_ppf_def broadcast_x_def fmul_NaN_right)

text \<open>
  Claim C2. With zero degrees of freedom \<open>err_ranges\<close> should raise or return an infinite
  half-width, never a silent NaN. The code does return NaN: for the two observations 1, 1
  at x = 0, 1 and the parameters a = 1, b = 0 (residuals 0, 0) both half-widths are NaN and
  no error is raised, for every quantile function.
\<close>

theorem err_ranges_unflagged_nan:
  "err_ranges quantile [Fin 0, Fin 1] [Fin 1, Fin 1] [Fin 1, Fin 0]
       [[Fin 1, Fin 0], [Fin 0, Fin 1]] 0.05 = Inr [NaN, NaN]"
  by (simp add: err_ranges_def t_ppf_def broadcast_x_def diag_def)

section \<open>Properties of the tables\<close>

lemma select_columns_keys [simp]:
  "col_keys (select_columns js F) = map (\<lambda>j. col_keys F ! j) js"
  "row_keys (select_columns js F) = row_keys F"
  "cells (select_columns js F) = map (\<lambda>r. map (\<lambda>j. r ! j) js) (cells F)"
  by (simp_all add: select_columns_def)

lemma all_missing_select:
  "j < length js \<Longrightarrow> all_missing (select_columns js F) j = all_missing F (js ! j)"
  by (simp add: all_missing_def)

lemma dropna_columns_clean:
  assumes "j < length (col_keys (dropna_columns F))"
  shows "\<not> all_missing (dropna_columns F) j"
proof -
  let ?js = "filter (\<lambda>j. \<not> all_missing F j) [0 ..< length (col_keys F)]"
  from assms have j: "j < length ?js"
    by (simp add: dropna_columns_def)
  then have "?js ! j \<in> set ?js"
    by (rule nth_mem)
  then have "\<not> all_missing F (?js ! j)"
    by simp
  with j show ?thesis
    unfolding dropna_columns_def by (simp only: all_missing_select) simp
qed

text \<open>With \<open>errors='coerce'\<close> the two coercions return, row by row what \<open>coerce\<close> says.\<close>

lemma to_numeric_Coerce: "to_numeric Coerce num column = Inr (map (numeric_cell num) column)"
  by (simp add: to_numeric_def)

lemma coerce_long_eq: "coerce_long num long = Inr (map (coerce num) long)"
proof -
  have "map (\<lambda>(r, y, v). \<lparr>country = country r, indicator = indicator r, year = y, val = v\<rparr>)
          (zip long (zip (map (numeric_cell num) (map (\<lambda>r. Some (year r)) long))
                         (map (numeric_cell num) (map val long))))
        = map (coerce num) long"
    by (induction long) (simp_all add: coerce_def)
  then show ?thesis
    by (simp add: coerce_long_def to_numeric_Coerce)
qed

text \<open>
  Claim C6. Whenever \<open>data_read\<close> returns its two pivoted views, neither the
  years-as-columns view nor the countries-as-columns view has a column whose entries are
  all missing.
\<close>

theorem data_read_no_missing_column:
  assumes "data_read num T = Inr (df_years, df_countries)"
  shows "(\<forall>j < length (col_keys df_years). \<not> all_missing df_years j) \<and>
         (\<forall>j < length (col_keys df_countries). \<not> all_missing df_countries j)"
  using assms
  by (auto simp: data_read_def coerce_long_eq Let_def dropna_columns_clean split: sum.splits)

lemma drop_columns_Inr:
  "set names \<subseteq> set (columns T) \<Longrightarrow> \<exists>df. drop_columns names T = Inr df \<and>
      columns df = filter (\<lambda>c. c \<notin> set names) (columns T)"
proof -
  have "map (\<lambda>j. columns T ! j) (filter (\<lambda>j. columns T ! j \<notin> set names) [0 ..< length (columns T)])
          = filter (\<lambda>c. c \<notin> set names) (map (\<lambda>j. columns T ! j) [0 ..< length (columns T)])"
    by (simp add: filter_map comp_def)
  then show "set names \<subseteq> set (columns T) \<Longrightarrow> ?thesis"
    by (simp add: drop_columns_def Let_def map_nth)
qed

lemma index_of_None: "index_of x xs = None \<longleftrightarrow> x \<notin> set xs"
  by (induction xs) auto

lemma id_positions_once:
  assumes "length (filter (\<lambda>c. c = cname) cols) = 1" and "length (filter (\<lambda>c. c = iname) cols) = 1"
  shows "\<exists>ci ii. id_positions cname iname cols = Inr (ci, ii)"
proof -
  have "filter (\<lambda>c. c = cname) cols \<noteq> []" "filter (\<lambda>c. c = iname) cols \<noteq> []"
    using assms by auto
  then have "cname \<in> set cols" "iname \<in> set cols"
    by (auto simp: filter_empty_conv)
  then have "index_of cname cols \<noteq> None" "index_of iname cols \<noteq> None"
    by (simp_all add: index_of_None)
  then obtain ci ii where "index_of cname cols = Some ci" "index_of iname cols = Some ii"
    by auto
  with assms show ?thesis
    by (simp add: id_positions_def named_twice_def)
qed

lemma to_numeric_Raise:
  "Some s \<in> set column \<Longrightarrow> num s = None \<Longrightarrow> to_numeric Raise num column = Inl ValueError"
  by (force simp: to_numeric_def numeric_cell_def)


lemma melt_Inr:
  assumes "length (filter (\<lambda>c. c = ''Country'') (columns T)) = 1"
    and "length (filter (\<lambda>c. c = ''Indicator Name'') (columns T)) = 1"
    and "''Value'' \<notin> set (columns T)"
  shows "\<exists>long. melt T = Inr long"
  using id_positions_once [OF assms(1,2)] assms(3) by (auto simp: melt_def)

text \<open>
  Claim C9. The coercion of Year and Value in \<open>data_read\<close> is total. A table with the
  columns \<open>data_read\<close> drops, one country column, one Indicator Name column and no column
  called Value is read to the end whatever tokens its cells hold and whatever the reader
  makes of them; \<open>to_numeric\<close> with \<open>errors='coerce'\<close> raises for no column and turns a
  token that is no number, like an empty cell, into a missing value; and the coercion of
  the long table returns for every long table.
\<close>

theorem coercion_total:
  assumes "set [''Country Code'', ''Indicator Code'', ''Unnamed: 66''] \<subseteq> set (columns T)"
    and "length (filter (\<lambda>c. c = ''Country Name'' \<or> c = ''Country'') (columns T)) = 1"
    and "length (filter (\<lambda>c. c = ''Indicator Name'') (columns T)) = 1"
    and "''Value'' \<notin> set (columns T)"
  shows "(\<exists>views. data_read num T = Inr views) \<and>
         (\<forall>column. to_numeric Coerce num column =
              Inr (map (\<lambda>c. case c of None \<Rightarrow> None | Some s \<Rightarrow> num s) column)) \<and>
         (\<forall>long. \<exists>df. coerce_long num long = Inr df \<and> length df = length long)"
proof -
  let ?D = "[''Country Code'', ''Indicator Code'', ''Unnamed: 66'']"
  let ?g = "\<lambda>c. if c = ''Country Name'' then ''Country'' else c"
  from drop_columns_Inr [OF assms(1)] obtain df where
    df: "drop_columns ?D T = Inr df"
    and cols: "columns df = filter (\<lambda>c. c \<notin> set ?D) (columns T)"
    by blast
  let ?R = "rename_column ''Country Name'' ''Country'' df"
  have R: "columns ?R = map ?g (filter (\<lambda>c. c \<notin> set ?D) (columns T))"
    by (simp add: rename_column_def cols)
  have "filter (\<lambda>c. c = ''Country'') (columns ?R) =
          map ?g (filter (\<lambda>c. c = ''Country Name'' \<or> c = ''Country'') (columns T))"
    unfolding R filter_map filter_filter comp_def
    by (rule arg_cong [where f = "map ?g"], rule filter_cong) auto
  then have c: "length (filter (\<lambda>c. c = ''Country'') (columns ?R)) = 1"
    using assms(2) by simp
  have "filter (\<lambda>c. c = ''Indicator Name'') (columns ?R) =
          map ?g (filter (\<lambda>c. c = ''Indicator Name'') (columns T))"
    unfolding R filter_map filter_filter comp_def
    by (rule arg_cong [where f = "map ?g"], rule filter_cong) auto
  then have i: "length (filter (\<lambda>c. c = ''Indicator Name'') (columns ?R)) = 1"
    using assms(3) by simp
  have v: "''Value'' \<notin> set (columns ?R)"
    using assms(4) unfolding R by auto
  from melt_Inr [OF c i v] obtain long where "melt ?R = Inr long"
    by blast
  with df have "\<exists>views. data_read num T = Inr views"
    by (simp add: data_read_def coerce_long_eq Let_def)
  moreover have "to_numeric Coerce num column =
      Inr (map (\<lambda>c. case c of None \<Rightarrow> None | Some s \<Rightarrow> num s) column)" for column
    by (simp add: to_numeric_def numeric_cell_def)
  ultimately show ?thesis
    by (simp add: coerce_long_eq)
qed

theorem coercion_total_witness:
  "set [''Country Code'', ''Indicator Code'', ''Unnamed: 66''] \<subseteq> set (columns example_table) \<and>
   length (filter (\<lambda>c. c = ''Country Name'' \<or> c = ''Country'') (columns example_table)) = 1 \<and>
   length (filter (\<lambda>c. c = ''Indicator Name'') (columns example_table)) = 1 \<and>
   ''Value'' \<notin> set (columns example_table) \<and>
   (\<exists>views. data_read example_num example_table = Inr views) \<and>
   to_numeric Coerce example_num [Some ''..'', Some ''1'', None] = Inr [None, Some 1, None] \<and>
   to_numeric Raise example_num [Some ''..'', Some ''1'', None] = Inl ValueError"
proof -
  have h: "set [''Country Code'', ''Indicator Code'', ''Unnamed: 66''] \<subseteq> set (columns example_table)"
    "length (filter (\<lambda>c. c = ''Country Name'' \<or> c = ''Country'') (columns example_table)) = 1"
    "length (filter (\<lambda>c. c = ''Indicator Name'') (columns example_table)) = 1"
    "''Value'' \<notin> set (columns example_table)"
    by (simp_all add: example_table_def)
  note total = coercion_total [OF h, of example_num]
  from total have "\<exists>views. data_read example_num example_table = Inr views"
    by blast
  moreover from total have "to_numeric Coerce example_num [Some ''..'', Some ''1'', None] =
      Inr (map (\<lambda>c. case c of None \<Rightarrow> None | Some s \<Rightarrow> example_num s) [Some ''..'', Some ''1'', None])"
    by blast
  then have "to_numeric Coerce example_num [Some ''..'', Some ''1'', None] = Inr [None, Some 1, None]"
    by (simp add: example_num_def)
  moreover have "to_numeric Raise example_num [Some ''..'', Some ''1'', None] = Inl ValueError"
    by (rule to_numeric_Raise [of "''..''"]) (simp_all add: example_num_def)
  ultimately show ?thesis
    using h by (intro conjI)
qed

lemma index_of_Some_iff:
  "index_of x xs = Some i \<longleftrightarrow> i < length xs \<and> xs ! i = x \<and> (\<forall>j<i. xs ! j \<noteq> x)"
proof (induction xs arbitrary: i)
  case Nil
  then show ?case by simp
next
  case (Cons y ys)
  show ?case
  proof (cases "x = y")
    case True
    then show ?thesis by (cases i) auto
  next
    case False
    show ?thesis
    proof (cases i)
      case 0
      with False show ?thesis by auto
    next
      case (Suc k)
      have "(\<forall>j<Suc k. (y # ys) ! j \<noteq> x) \<longleftrightarrow> (\<forall>j<k. ys ! j \<noteq> x)"
        using False by (auto simp: less_Suc_eq_0_disj)
      with False Suc Cons.IH [of k] show ?thesis by auto
    qed
  qed
qed

lemma index_of_map_rename:
  "\<forall>c \<in> set xs. g c = y \<longleftrightarrow> c = x \<Longrightarrow> index_of y (map g xs) = index_of x xs"
  by (induction xs) auto

lemma index_of_kept:
  assumes "index_of x xs = Some i" and "P x"
  defines "keep \<equiv> filter (\<lambda>j. P (xs ! j)) [0 ..< length xs]"
  shows "\<exists>k. index_of x (map (\<lambda>j. xs ! j) keep) = Some k \<and> k < length keep \<and> keep ! k = i"
proof -
  from assms(1) have i: "i < length xs" "xs ! i = x" and first: "\<forall>j<i. xs ! j \<noteq> x"
    by (simp_all add: index_of_Some_iff)
  from i assms(2) have "i \<in> set keep"
    by (simp add: keep_def)
  then obtain k where k: "k < length keep" "keep ! k = i"
    by (auto simp: in_set_conv_nth)
  have sorted: "sorted_wrt (<) keep"
    unfolding keep_def by (rule sorted_wrt_filter) simp
  have "\<forall>j<k. map (\<lambda>j. xs ! j) keep ! j \<noteq> x"
  proof (intro allI impI)
    fix j assume "j < k"
    with k sorted have "keep ! j < i"
      using sorted_wrt_nth_less [of "(<)" keep j k] by simp
    with first \<open>j < k\<close> k show "map (\<lambda>j. xs ! j) keep ! j \<noteq> x"
      by simp
  qed
  with k i have "index_of x (map (\<lambda>j. xs ! j) keep) = Some k"
    by (simp add: index_of_Some_iff)
  with k show ?thesis by blast
qed

lemma cell_at_map: "k < length js \<Longrightarrow> cell_at (map (cell_at r) js) k = cell_at r (js ! k)"
  by (simp add: cell_at_def)

lemma kept_columns:
  "map (\<lambda>j. xs ! j) (filter (\<lambda>j. P (xs ! j)) [0 ..< length xs]) = filter P xs"
proof -
  have "filter P (map (\<lambda>j. xs ! j) [0 ..< length xs]) =
          map (\<lambda>j. xs ! j) (filter (\<lambda>j. P (xs ! j)) [0 ..< length xs])"
    by (simp add: filter_map comp_def)
  then show ?thesis by (simp add: map_nth)
qed

text \<open>Removing the all-missing columns twice is removing them once.\<close>

lemma select_columns_all:
  assumes "\<forall>r \<in> set (cells F). length r = length (col_keys F)"
  shows "select_columns [0 ..< length (col_keys F)] F = F"
proof -
  have "map (\<lambda>r. map (\<lambda>j. r ! j) [0 ..< length (col_keys F)]) (cells F) = cells F"
  proof (rule map_idI)
    fix r assume "r \<in> set (cells F)"
    with assms have "length (col_keys F) = length r"
      by simp
    then show "map (\<lambda>j. r ! j) [0 ..< length (col_keys F)] = r"
      by (simp add: map_nth)
  qed
  then show ?thesis
    by (simp add: select_columns_def map_nth)
qed

lemma dropna_columns_idem: "dropna_columns (dropna_columns F) = dropna_columns F"
proof -
  let ?G = "dropna_columns F"
  have "filter (\<lambda>j. \<not> all_missing ?G j) [0 ..< length (col_keys ?G)] = [0 ..< length (col_keys ?G)]"
    by (simp add: dropna_columns_clean)
  moreover have "\<forall>r \<in> set (cells ?G). length r = length (col_keys ?G)"
    by (auto simp: dropna_columns_def)
  ultimately show ?thesis
    using select_columns_all [of ?G] by (simp add: dropna_columns_def [of ?G])
qed

lemma dropna_pivot_table: "dropna_columns (pivot_table idx col v rs) = pivot_table idx col v rs"
  by (simp add: pivot_table_def Let_def dropna_columns_idem)

lemma col_keys_loc_slice:
  "col_keys (loc_slice s e F) = filter (\<lambda>y. of_int s \<le> y \<and> y \<le> of_int e) (col_keys F)"
  using kept_columns [of "col_keys F" "\<lambda>y. of_int s \<le> y \<and> y \<le> of_int e"]
  by (simp add: loc_slice_def)

text \<open>The example, step by step.\<close>

lemma example_drop:
  "drop_columns [''Country Code'', ''Indicator Code'', ''Unnamed: 66''] example_table =
     Inr \<lparr>columns = [''Country Name'', ''Indicator Name'', ''1990'', ''1991'', ''1992''],
          rows = [[Some ''India'', Some ''CO2'', Some ''0'', Some ''0'', Some ''2''],
                  [Some ''China'', Some ''CO2'', Some ''..'', Some ''1'', None]]\<rparr>"
  by (simp add: example_table_def drop_columns_def cell_at_def)

lemma example_melt:
  "map_sum id (map (coerce example_num))
     (melt (rename_column ''Country Name'' ''Country''
        \<lparr>columns = [''Country Name'', ''Indicator Name'', ''1990'', ''1991'', ''1992''],
         rows = [[Some ''India'', Some ''CO2'', Some ''0'', Some ''0'', Some ''2''],
                 [Some ''China'', Some ''CO2'', Some ''..'', Some ''1'', None]]\<rparr>))
     = Inr example_long"
  by (simp add: rename_column_def melt_def id_positions_def named_twice_def cell_at_def coerce_def
        numeric_cell_def example_num_def example_long_def)

lemma example_group_keys_years:
  "group_keys country_indicator year val example_long =
     [((''India'', ''CO2''), 1990), ((''India'', ''CO2''), 1991), ((''China'', ''CO2''), 1991), ((''India'', ''CO2''), 1992)]"
  by (simp add: example_long_def group_keys_def group_mean_def nanmean_def List.map_filter_def country_indicator_def)

lemma example_pivot_years:
  "pivot_table country_indicator year val example_long = example_years_view"
  unfolding pivot_table_def example_group_keys_years Let_def example_years_view_def
  apply (simp add: group_mean_def nanmean_def List.map_filter_def country_indicator_def example_long_def)
  apply (simp add: dropna_columns_def all_missing_def select_columns_def)
  done

lemma example_group_keys_countries:
  "group_keys year_indicator country val example_long =
     [((1990, ''CO2''), ''India''), ((1991, ''CO2''), ''India''), ((1991, ''CO2''), ''China''), ((1992, ''CO2''), ''India'')]"
  by (simp add: example_long_def group_keys_def group_mean_def nanmean_def List.map_filter_def year_indicator_def)

lemma example_pivot_countries:
  "pivot_table year_indicator country val example_long = example_countries_view"
  unfolding pivot_table_def example_group_keys_countries Let_def example_countries_view_def
  apply (simp add: group_mean_def nanmean_def List.map_filter_def year_indicator_def example_long_def)
  apply (simp add: dropna_columns_def all_missing_def select_columns_def)
  done

lemma example_data_read:
  "data_read example_num example_table = Inr (example_years_view, example_countries_view)"
proof -
  obtain long where long:
    "melt (rename_column ''Country Name'' ''Country''
          \<lparr>columns = [''Country Name'', ''Indicator Name'', ''1990'', ''1991'', ''1992''],
           rows = [[Some ''India'', Some ''CO2'', Some ''0'', Some ''0'', Some ''2''],
                   [Some ''China'', Some ''CO2'', Some ''..'', Some ''1'', None]]\<rparr>) = Inr long"
    "map (coerce example_num) long = example_long"
    using example_melt by (auto simp: map_sum_def split: sum.splits)
  show ?thesis
    unfolding data_read_def example_drop sum.case long coerce_long_eq Let_def dropna_pivot_table
      example_pivot_years example_pivot_countries
    by (rule refl)
qed

theorem data_read_no_missing_column_witness:
  "data_read example_num example_table = Inr (example_years_view, example_countries_view) \<and>
   \<not> all_missing example_years_view 0 \<and> \<not> all_missing example_years_view 1 \<and>
   \<not> all_missing example_years_view 2 \<and>
   \<not> all_missing example_countries_view 0 \<and> \<not> all_missing example_countries_view 1"
proof -
  have "length (col_keys example_years_view) = 3" and "length (col_keys example_countries_view) = 2"
    by (simp_all add: example_years_view_def example_countries_view_def)
  with data_read_no_missing_column [OF example_data_read] example_data_read show ?thesis
    by simp
qed

section \<open>The filtered slice is a slice of the years view\<close>

lemma drop_columns_Inl: "drop_columns names T = Inl e \<longleftrightarrow> e = KeyError \<and> \<not> set names \<subseteq> set (columns T)"
  by (auto simp: drop_columns_def Let_def)

lemma data_read_drop_Inl:
  "\<not> set [''Country Code'', ''Indicator Code'', ''Unnamed: 66''] \<subseteq> set (columns T) \<Longrightarrow> data_read num T = Inl KeyError"
  by (simp add: data_read_def drop_columns_def)

lemma index_of_mem: "index_of x xs = Some k \<Longrightarrow> x \<in> set xs"
  using index_of_None [of x xs] by auto

text \<open>The cell of a kept column, read in the table after the drop and in the table before it.\<close>

lemma cell_of_kept:
  assumes "index_of x (filter P cols) = Some k"
  shows "cell_at (map (cell_at r) (filter (\<lambda>j. P (cols ! j)) [0 ..< length cols])) k =
           (case index_of x cols of None \<Rightarrow> None | Some j \<Rightarrow> cell_at r j)"
proof -
  let ?keep = "filter (\<lambda>j. P (cols ! j)) [0 ..< length cols]"
  from index_of_mem [OF assms] have x: "x \<in> set cols" "P x"
    by simp_all
  then obtain i where i: "index_of x cols = Some i"
    using index_of_None [of x cols] by auto
  from index_of_kept [of x cols i P, OF i x(2)] obtain k' where
    "index_of x (map (\<lambda>j. cols ! j) ?keep) = Some k'" "k' < length ?keep" "?keep ! k' = i"
    by blast
  with assms have "k < length ?keep" "?keep ! k = i"
    by (simp_all add: kept_columns)
  with i show ?thesis
    by (simp add: cell_at_map)
qed

lemma named_twice_map:
  assumes "a \<in> set xs" "b \<in> set xs" "a \<noteq> b" "g a = y" "g b = y"
  shows "named_twice y (map g xs)"
proof -
  have "{a, b} \<subseteq> set (filter (\<lambda>c. g c = y) xs)"
    using assms by simp
  then have "card {a, b} \<le> card (set (filter (\<lambda>c. g c = y) xs))"
    by (intro card_mono) simp_all
  also have "\<dots> \<le> length (filter (\<lambda>c. g c = y) xs)"
    by (rule card_length)
  finally have "2 \<le> length (filter (\<lambda>c. g c = y) xs)"
    using assms(3) by simp
  then show ?thesis
    by (simp add: named_twice_def filter_map comp_def)
qed

lemma isin_iff: "isin c names \<longleftrightarrow> c \<in> Some ` set names"
  by (cases c) (auto simp: isin_def)

text \<open>The mask of the code, after the drop and the rename, keeps the requested rows.\<close>

lemma isin_rows_requested:
  assumes drop: "drop_columns [''Country Code'', ''Indicator Code'', ''Unnamed: 66''] T = Inr df"
    and drop': "drop_columns [''Country Code'', ''Indicator Code'', ''Unnamed: 66'']
                  (requested_rows countries indicators T) = Inr df'"
    and pos: "id_positions ''Country'' ''Indicator Name''
                (columns (rename_column ''Country Name'' ''Country'' df)) = Inr (ci, ii)"
  shows "isin_rows ''Country'' countries ''Indicator Name'' indicators
           (rename_column ''Country Name'' ''Country'' df) =
         Inr (rename_column ''Country Name'' ''Country'' df')"
proof -
  let ?P = "\<lambda>c. c \<notin> set [''Country Code'', ''Indicator Code'', ''Unnamed: 66'']"
  let ?keep = "filter (\<lambda>j. ?P (columns T ! j)) [0 ..< length (columns T)]"
  let ?g = "\<lambda>c. if c = ''Country Name'' then ''Country'' else c"
  let ?f = "\<lambda>r. map (cell_at r) ?keep"
  let ?xs = "filter ?P (columns T)"
  let ?cc = "if ''Country Name'' \<in> set (columns T) then ''Country Name'' else ''Country''"
  let ?Q = "\<lambda>r. column_cell T ?cc r \<in> Some ` set countries \<and>
                 column_cell T ''Indicator Name'' r \<in> Some ` set indicators"
  from drop have ok: "set [''Country Code'', ''Indicator Code'', ''Unnamed: 66''] \<subseteq> set (columns T)"
    by (auto simp: drop_columns_def Let_def split: if_splits)
  with drop have df: "df = \<lparr>columns = ?xs, rows = map ?f (rows T)\<rparr>"
    using kept_columns [of "columns T" ?P] by (simp add: drop_columns_def Let_def)
  from ok drop' have df': "df' = \<lparr>columns = ?xs, rows = map ?f (filter ?Q (rows T))\<rparr>"
    using kept_columns [of "columns T" ?P] by (simp add: drop_columns_def Let_def requested_rows_def)
  from pos have ci: "index_of ''Country'' (map ?g ?xs) = Some ci"
    and ii: "index_of ''Indicator Name'' (map ?g ?xs) = Some ii"
    and once: "\<not> named_twice ''Country'' (map ?g ?xs)"
    by (auto simp: id_positions_def df rename_column_def split: option.splits if_splits)
  have "\<forall>c \<in> set ?xs. ?g c = ''Indicator Name'' \<longleftrightarrow> c = ''Indicator Name''"
    by auto
  from index_of_map_rename [OF this] ii have "index_of ''Indicator Name'' ?xs = Some ii"
    by simp
  from cell_of_kept [OF this] have ind: "cell_at (?f r) ii = column_cell T ''Indicator Name'' r" for r
    by (simp add: column_cell_def)
  have "\<forall>c \<in> set ?xs. ?g c = ''Country'' \<longleftrightarrow> c = ?cc"
  proof (cases "''Country Name'' \<in> set (columns T)")
    case True
    have "''Country'' \<notin> set ?xs"
    proof
      assume "''Country'' \<in> set ?xs"
      moreover from True have "''Country Name'' \<in> set ?xs"
        by simp
      ultimately have "named_twice ''Country'' (map ?g ?xs)"
        by (intro named_twice_map [of "''Country Name''" _ "''Country''"]) simp_all
      with once show False ..
    qed
    with True show ?thesis by auto
  next
    case False
    then show ?thesis by auto
  qed
  from index_of_map_rename [OF this] ci have "index_of ?cc ?xs = Some ci"
    by simp
  from cell_of_kept [OF this] have cou: "cell_at (?f r) ci = column_cell T ?cc r" for r
    by (simp add: column_cell_def)
  have "filter (\<lambda>r'. isin (cell_at r' ci) countries \<and> isin (cell_at r' ii) indicators) (map ?f (rows T))
          = map ?f (filter ?Q (rows T))"
    unfolding filter_map comp_def isin_iff cou ind ..
  with pos show ?thesis
    by (simp add: isin_rows_def df df' rename_column_def)
qed

text \<open>
  Claim C5. For every wide table, \<open>filter_Methane_emission_data\<close> returns what
  \<open>data_read\<close> makes, as its years view, of the table restricted to the rows whose
  country (the column Country Name, or Country where there is no Country Name) is one of
  the requested countries and whose indicator is one of the requested indicators, cut to
  the columns whose label lies between \<open>start_year\<close> and \<open>end_year\<close>, both included;
  it raises what \<open>data_read\<close> raises on the restricted table. So the drop, rename, melt,
  coerce and pivot contract is the one of \<open>data_read\<close>, and the restriction is made on
  the wide table, before the melt.
\<close>

theorem filter_is_sliced_read:
  "filter_Methane_emission_data num T countries indicators start_year end_year =
     (case data_read num (requested_rows countries indicators T) of
        Inl e \<Rightarrow> Inl e
      | Inr (df_years, df_countries) \<Rightarrow> Inr (loc_slice start_year end_year df_years))
   \<and> (\<forall>F :: (string \<times> string, real) frame. col_keys (loc_slice start_year end_year F) =
          filter (\<lambda>y. of_int start_year \<le> y \<and> y \<le> of_int end_year) (col_keys F))"
proof (cases "drop_columns [''Country Code'', ''Indicator Code'', ''Unnamed: 66''] T")
  case (Inl e)
  then have "\<not> set [''Country Code'', ''Indicator Code'', ''Unnamed: 66''] \<subseteq> set (columns T)"
    and e: "e = KeyError"
    unfolding drop_columns_Inl by blast+
  then have "data_read num (requested_rows countries indicators T) = Inl KeyError"
    using data_read_drop_Inl [of "requested_rows countries indicators T" num]
    by (simp add: requested_rows_def)
  with Inl e show ?thesis
    by (simp add: filter_Methane_emission_data_def col_keys_loc_slice)
next
  case (Inr df)
  then have "set [''Country Code'', ''Indicator Code'', ''Unnamed: 66'']
      \<subseteq> set (columns (requested_rows countries indicators T))"
    by (auto simp: drop_columns_def Let_def requested_rows_def split: if_splits)
  from drop_columns_Inr [OF this] obtain df' where
    df': "drop_columns [''Country Code'', ''Indicator Code'', ''Unnamed: 66'']
            (requested_rows countries indicators T) = Inr df'"
    by blast
  let ?R = "rename_column ''Country Name'' ''Country'' df"
  let ?R' = "rename_column ''Country Name'' ''Country'' df'"
  have cols: "columns ?R' = columns ?R"
    using Inr df' by (auto simp: drop_columns_def Let_def requested_rows_def rename_column_def split: if_splits)
  show ?thesis
  proof (cases "id_positions ''Country'' ''Indicator Name'' (columns ?R)")
    case (Inl e)
    with cols have "isin_rows ''Country'' countries ''Indicator Name'' indicators ?R = Inl e"
      and "melt ?R' = Inl e"
      by (simp_all add: isin_rows_def melt_def)
    with Inr df' show ?thesis
      by (simp add: filter_Methane_emission_data_def data_read_def col_keys_loc_slice)
  next
    case pos: (Inr p)
    obtain ci ii where "p = (ci, ii)"
      by (cases p)
    with pos isin_rows_requested [OF Inr df', of ci ii] have
      "isin_rows ''Country'' countries ''Indicator Name'' indicators ?R = Inr ?R'"
      by simp
    with Inr df' show ?thesis
      by (simp add: filter_Methane_emission_data_def data_read_def coerce_long_eq Let_def
            col_keys_loc_slice dropna_pivot_table split: sum.splits)
  qed
qed

section \<open>Properties of the subset\<close>

lemma set_level_rows:
  "set (level_rows level labels F) =
     {p. p < length (row_keys F) \<and> level (row_keys F ! p) \<in> set labels}"
  by (auto simp: level_rows_def)

lemma level_rows_empty:
  "level_rows level labels F = [] \<longleftrightarrow> set labels \<inter> level ` set (row_keys F) = {}"
proof -
  have "level_rows level labels F = [] \<longleftrightarrow> set (level_rows level labels F) = {}"
    by simp
  also have "\<dots> \<longleftrightarrow> set labels \<inter> level ` set (row_keys F) = {}"
  proof
    assume empty: "set (level_rows level labels F) = {}"
    have "level k \<notin> set labels" if "k \<in> set (row_keys F)" for k
    proof -
      from that obtain p where "p < length (row_keys F)" "row_keys F ! p = k"
        by (auto simp: in_set_conv_nth)
      with empty show ?thesis
        by (auto simp: set_level_rows)
    qed
    then show "set labels \<inter> level ` set (row_keys F) = {}"
      by auto
  next
    assume "set labels \<inter> level ` set (row_keys F) = {}"
    then have "level (row_keys F ! p) \<notin> set labels" if "p < length (row_keys F)" for p
      using that nth_mem [of p "row_keys F"] by blast
    then show "set (level_rows level labels F) = {}"
      by (auto simp: set_level_rows)
  qed
  finally show ?thesis .
qed

lemma set_selected_rows:
  "set (selected_rows cs is F) =
     {p. p < length (row_keys F) \<and> fst (row_keys F ! p) \<in> set cs \<and> snd (row_keys F ! p) \<in> set is}"
  by (auto simp: selected_rows_def set_level_rows)

lemma distinct_selected_rows: "distinct (selected_rows cs is F)"
  by (simp add: selected_rows_def level_rows_def)

lemma set_selected_keys:
  "(\<lambda>p. row_keys F ! p) ` set (selected_rows cs is F) = (set cs \<times> set is) \<inter> set (row_keys F)"
proof (intro set_eqI iffI)
  fix k assume "k \<in> (\<lambda>p. row_keys F ! p) ` set (selected_rows cs is F)"
  then show "k \<in> (set cs \<times> set is) \<inter> set (row_keys F)"
    by (auto simp: set_selected_rows mem_Times_iff)
next
  fix k assume k: "k \<in> (set cs \<times> set is) \<inter> set (row_keys F)"
  then obtain p where "p < length (row_keys F)" "row_keys F ! p = k"
    by (auto simp: in_set_conv_nth)
  with k have "p \<in> set (selected_rows cs is F)"
    by (auto simp: set_selected_rows)
  with \<open>row_keys F ! p = k\<close> show "k \<in> (\<lambda>p. row_keys F ! p) ` set (selected_rows cs is F)"
    by blast
qed

lemma selected_rows_empty:
  "selected_rows cs is F = [] \<longleftrightarrow> (set cs \<times> set is) \<inter> set (row_keys F) = {}"
proof -
  have "selected_rows cs is F = [] \<longleftrightarrow> (\<lambda>p. row_keys F ! p) ` set (selected_rows cs is F) = {}"
    by simp
  then show ?thesis
    by (simp only: set_selected_keys)
qed

lemma distinct_selected_keys:
  assumes "distinct (row_keys F)"
  shows "distinct (map (\<lambda>p. row_keys F ! p) (selected_rows cs is F))"
proof -
  have "inj_on (\<lambda>p. row_keys F ! p) (set (selected_rows cs is F))"
    using assms by (auto simp: inj_on_def set_selected_rows nth_eq_iff_index_eq)
  then show ?thesis
    by (simp add: distinct_map distinct_selected_rows)
qed

lemma positions_keys: "map (\<lambda>j. ks ! j) (positions y ks) = filter (\<lambda>k. k = y) ks"
  using kept_columns [of ks "\<lambda>k. k = y"] by (simp add: positions_def)

lemma filter_eq_distinct: "distinct ks \<Longrightarrow> y \<in> set ks \<Longrightarrow> filter (\<lambda>k. k = y) ks = [y]"
  by (induction ks) (auto simp: filter_empty_conv)

lemma keys_of_positions:
  assumes "distinct ks" and "set ys \<subseteq> set ks"
  shows "map (\<lambda>j. ks ! j) (concat (map (\<lambda>y. positions y ks) ys)) = ys"
  using assms(2)
proof (induction ys)
  case Nil
  then show ?case by simp
next
  case (Cons y ys)
  then show ?case
    using assms(1) by (simp add: positions_keys filter_eq_distinct)
qed

text \<open>When the row lookup of \<open>subset_data\<close> fails, and what it selects when it does not.\<close>

lemma loc_rows_Inl:
  "loc_rows strict cs is F = Inl e \<longleftrightarrow>
     e = KeyError \<and>
     ((strict \<and> \<not> set cs \<subseteq> fst ` set (row_keys F)) \<or>
      (set cs \<inter> fst ` set (row_keys F) \<noteq> {} \<and> strict \<and> \<not> set is \<subseteq> snd ` set (row_keys F)) \<or>
      (set cs \<inter> fst ` set (row_keys F) \<noteq> {} \<and> set is \<inter> snd ` set (row_keys F) \<noteq> {} \<and>
       (set cs \<times> set is) \<inter> set (row_keys F) = {}))"
  unfolding loc_rows_def level_rows_empty selected_rows_empty by auto

lemma loc_rows_Inr:
  assumes "loc_rows strict cs is F = Inr G"
  shows "col_keys G = col_keys F \<and>
         (\<exists>ps. G = take_rows ps F \<and> (\<lambda>p. row_keys F ! p) ` set ps = (set cs \<times> set is) \<inter> set (row_keys F))"
proof -
  have none: "(set cs \<times> set is) \<inter> set (row_keys F) = {}"
    if "set cs \<inter> fst ` set (row_keys F) = {} \<or> set is \<inter> snd ` set (row_keys F) = {}"
    using that by force
  from assms consider
      "G = take_rows [] F" "set cs \<inter> fst ` set (row_keys F) = {} \<or> set is \<inter> snd ` set (row_keys F) = {}"
    | "G = take_rows (selected_rows cs is F) F"
    unfolding loc_rows_def level_rows_empty by (auto split: if_splits)
  then show ?thesis
  proof cases
    case 1
    then have "G = take_rows [] F \<and> (\<lambda>p. row_keys F ! p) ` set [] = (set cs \<times> set is) \<inter> set (row_keys F)"
      using none by simp
    then show ?thesis
      by (auto simp: take_rows_def)
  next
    case 2
    with set_selected_keys [of F cs "is"] show ?thesis
      by (auto simp: take_rows_def)
  qed
qed

lemma loc_rows_present:
  assumes "set cs \<subseteq> fst ` set (row_keys F)" "set is \<subseteq> snd ` set (row_keys F)"
    and "(set cs \<times> set is) \<inter> set (row_keys F) \<noteq> {}"
  shows "loc_rows strict cs is F = Inr (take_rows (selected_rows cs is F) F)"
proof -
  from assms(3) have "set cs \<inter> fst ` set (row_keys F) \<noteq> {}" "set is \<inter> snd ` set (row_keys F) \<noteq> {}"
    by force+
  with assms show ?thesis
    unfolding loc_rows_def level_rows_empty selected_rows_empty by simp
qed

lemma loc_columns_Inl: "loc_columns labels F = Inl e \<longleftrightarrow> e = KeyError \<and> \<not> set labels \<subseteq> set (col_keys F)"
  by (auto simp: loc_columns_def)

lemma years_mem: "real n \<in> set years \<longleftrightarrow> 1990 \<le> n \<and> n < 2019"
  unfolding years_def set_map set_upt by auto

lemma length_years: "length years = 29"
  by (simp add: years_def)

lemma distinct_years: "distinct years"
  by (simp add: years_def distinct_map inj_on_def)

text \<open>
  Claim C3, as stated, asks of every years view that \<open>subset_data\<close> returns the 29 years
  1990 to 2018 as rows once the requested countries and indicators are in the row index.
  It fails for a view that lacks one of these years as a column: the lookup of the fixed
  list of years is a KeyError, whichever pandas is at work.
\<close>

theorem subset_data_shape_counterexample:
  "set [(''India'', ''CO2'')] \<subseteq> set (row_keys one_year_view) \<and>
   subset_data True one_year_view [''India''] [''CO2''] = Inl KeyError \<and>
   subset_data False one_year_view [''India''] [''CO2''] = Inl KeyError"
proof -
  have rows: "row_keys one_year_view = [(''India'', ''CO2'')]"
    by (simp add: one_year_view_def)
  have "1991 \<in> set years"
    using years_mem [of 1991] by simp
  then have "\<not> set years \<subseteq> set (col_keys one_year_view)"
    by (auto simp: one_year_view_def)
  moreover have "loc_rows strict [''India''] [''CO2''] one_year_view =
      Inr (take_rows (selected_rows [''India''] [''CO2''] one_year_view) one_year_view)" for strict
    by (rule loc_rows_present) (simp_all add: rows)
  ultimately show ?thesis
    by (simp add: subset_data_def loc_columns_def take_rows_def rows)
qed

text \<open>
  Claim C3, amended. For a years view with duplicate-free row and column keys that has
  every year from 1990 to 2018 as a column, and for non-empty sets of countries and
  indicators all of whose combinations are in the row index, \<open>subset_data\<close> returns a
  transposed table whose rows are exactly the 29 years 1990 to 2018 and whose columns are
  the requested (country, indicator) pairs, \<open>|countries| * |indicators|\<close> of them.
\<close>

theorem subset_data_shape:
  assumes present: "\<forall>c \<in> set cs. \<forall>i \<in> set is. (c, i) \<in> set (row_keys F)"
    and nonempty: "cs \<noteq> []" "is \<noteq> []"
    and sets: "distinct cs" "distinct is"
    and unique: "distinct (row_keys F)" "distinct (col_keys F)"
    and years_present: "set (map real [1990 ..< 2019]) \<subseteq> set (col_keys F)"
  shows "\<exists>R. subset_data strict F cs is = Inr R \<and>
             row_keys R = map real [1990 ..< 2019] \<and> length (row_keys R) = 29 \<and>
             set (col_keys R) = set cs \<times> set is \<and>
             length (col_keys R) = length cs * length is"
proof -
  let ?G = "take_rows (selected_rows cs is F) F"
  let ?R = "transpose_frame (select_columns (concat (map (\<lambda>y. positions y (col_keys F)) years)) ?G)"
  from years_present have yrs: "set years \<subseteq> set (col_keys F)"
    by (simp add: years_def)
  from nonempty obtain c0 i0 where "c0 \<in> set cs" "i0 \<in> set is"
    by (cases cs; cases "is") auto
  with present have levels: "set cs \<subseteq> fst ` set (row_keys F)" "set is \<subseteq> snd ` set (row_keys F)"
    and some: "(set cs \<times> set is) \<inter> set (row_keys F) \<noteq> {}"
    by force+
  have all: "set cs \<times> set is \<subseteq> set (row_keys F)"
    using present by auto
  have R: "subset_data strict F cs is = Inr ?R"
    using yrs by (simp add: subset_data_def loc_rows_present [OF levels some] loc_columns_def take_rows_def)
  have rows: "row_keys ?R = years"
    using keys_of_positions [OF unique(2) yrs] by (simp add: transpose_frame_def take_rows_def)
  have cols: "col_keys ?R = map (\<lambda>p. row_keys F ! p) (selected_rows cs is F)"
    by (simp add: transpose_frame_def take_rows_def)
  have set_cols: "set (col_keys ?R) = set cs \<times> set is"
    unfolding cols set_map set_selected_keys using all by blast
  have "distinct (col_keys ?R)"
    unfolding cols by (rule distinct_selected_keys [OF unique(1)])
  then have "length (col_keys ?R) = card (set cs \<times> set is)"
    using set_cols distinct_card by fastforce
  also have "\<dots> = length cs * length is"
    using sets by (simp add: card_cartesian_product distinct_card)
  finally have len: "length (col_keys ?R) = length cs * length is" .
  from R rows set_cols len show ?thesis
    by (simp add: years_def)
qed

theorem subset_data_shape_witness:
  "set [(''India'', ''CO2''), (''India'', ''CH4''), (''China'', ''CO2''), (''China'', ''CH4'')]
     \<subseteq> set (row_keys four_rows_view) \<and>
   distinct (row_keys four_rows_view) \<and> distinct (col_keys four_rows_view) \<and>
   set (map real [1990 ..< 2019]) \<subseteq> set (col_keys four_rows_view) \<and>
   (\<exists>R. subset_data True four_rows_view [''India'', ''China''] [''CO2'', ''CH4''] = Inr R \<and>
        row_keys R = map real [1990 ..< 2019] \<and> length (row_keys R) = 29 \<and>
        set (col_keys R) = set [''India'', ''China''] \<times> set [''CO2'', ''CH4''] \<and>
        length (col_keys R) = 4)"
proof -
  have rows: "row_keys four_rows_view =
      [(''China'', ''CH4''), (''China'', ''CO2''), (''India'', ''CH4''), (''India'', ''CO2'')]"
    and cols: "col_keys four_rows_view = years"
    by (simp_all add: four_rows_view_def)
  have present: "\<forall>c \<in> set [''India'', ''China'']. \<forall>i \<in> set [''CO2'', ''CH4''].
      (c, i) \<in> set (row_keys four_rows_view)"
    by (simp add: rows)
  have d1: "distinct (row_keys four_rows_view)"
    by (simp add: rows)
  have d2: "distinct (col_keys four_rows_view)"
    by (simp add: cols distinct_years)
  have yrs: "set (map real [1990 ..< 2019]) \<subseteq> set (col_keys four_rows_view)"
    unfolding cols years_def by (rule subset_refl)
  have "[''India'', ''China''] \<noteq> []" "[''CO2'', ''CH4''] \<noteq> []"
    "distinct [''India'', ''China'']" "distinct [''CO2'', ''CH4'']"
    by simp_all
  from subset_data_shape [OF present this d1 d2 yrs, of True]
  have "\<exists>R. subset_data True four_rows_view [''India'', ''China''] [''CO2'', ''CH4''] = Inr R \<and>
        row_keys R = map real [1990 ..< 2019] \<and> length (row_keys R) = 29 \<and>
        set (col_keys R) = set [''India'', ''China''] \<times> set [''CO2'', ''CH4''] \<and>
        length (col_keys R) = length [''India'', ''China''] * length [''CO2'', ''CH4'']" .
  moreover have "length [''India'', ''China''] * length [''CO2'', ''CH4''] = 4"
    by simp
  ultimately have result:
    "\<exists>R. subset_data True four_rows_view [''India'', ''China''] [''CO2'', ''CH4''] = Inr R \<and>
        row_keys R = map real [1990 ..< 2019] \<and> length (row_keys R) = 29 \<and>
        set (col_keys R) = set [''India'', ''China''] \<times> set [''CO2'', ''CH4''] \<and>
        length (col_keys R) = 4"
    by (simp only:)
  have requested: "set [(''India'', ''CO2''), (''India'', ''CH4''), (''China'', ''CO2''), (''China'', ''CH4'')]
     \<subseteq> set (row_keys four_rows_view)"
    by (simp add: rows)
  show ?thesis
    by (intro conjI requested d1 d2 yrs result)
qed

text \<open>
  Claim C4, as stated, asks for a key-lookup error whenever a requested (country,
  indicator) combination is not in the row index. With India only under CO2 and China only
  under CH4, the request for both countries and both indicators raises nothing and returns
  the two combinations there are, leaving out (India, CH4) and (China, CO2).
\<close>

theorem subset_data_key_error_counterexample:
  "(''India'', ''CH4'') \<notin> set (row_keys two_rows_view) \<and>
   map_sum id col_keys (subset_data True two_rows_view [''India'', ''China''] [''CO2'', ''CH4''])
     = Inr [(''India'', ''CO2''), (''China'', ''CH4'')] \<and>
   map_sum id col_keys (subset_data False two_rows_view [''India'', ''China''] [''CO2'', ''CH4''])
     = Inr [(''India'', ''CO2''), (''China'', ''CH4'')]"
proof -
  have rows: "row_keys two_rows_view = [(''China'', ''CH4''), (''India'', ''CO2'')]"
    and cols: "col_keys two_rows_view = years"
    by (simp_all add: two_rows_view_def)
  have sel: "selected_rows [''India'', ''China''] [''CO2'', ''CH4''] two_rows_view = [1, 0]"
    by (simp add: selected_rows_def level_rows_def rows request_rank_def)
  have "loc_rows strict [''India'', ''China''] [''CO2'', ''CH4''] two_rows_view =
      Inr (take_rows [1, 0] two_rows_view)" for strict
    unfolding sel [symmetric] by (rule loc_rows_present) (simp_all add: rows)
  then show ?thesis
    by (simp add: subset_data_def loc_columns_def cols transpose_frame_def take_rows_def)
      (simp add: rows)
qed

text \<open>
  Claim C4, amended. \<open>subset_data\<close> fails, with a KeyError and nothing else, exactly when
  one of the years 1990 to 2018 is not a column of the view; or, from pandas 2.0 on
  (\<open>strict\<close>), a requested country occurs nowhere in the row index, or one does and a
  requested indicator occurs nowhere; or a requested country and a requested indicator
  occur in the index and none of the requested combinations does. In every other case, so
  whenever some of the requested combinations are in the index and others are not, it
  returns the requested combinations that are there and leaves the others out.
\<close>

theorem subset_data_key_error:
  "(subset_data strict F cs is = Inl KeyError \<longleftrightarrow>
      \<not> set (map real [1990 ..< 2019]) \<subseteq> set (col_keys F) \<or>
      (strict \<and> \<not> set cs \<subseteq> fst ` set (row_keys F)) \<or>
      (set cs \<inter> fst ` set (row_keys F) \<noteq> {} \<and> strict \<and> \<not> set is \<subseteq> snd ` set (row_keys F)) \<or>
      (set cs \<inter> fst ` set (row_keys F) \<noteq> {} \<and> set is \<inter> snd ` set (row_keys F) \<noteq> {} \<and>
       (set cs \<times> set is) \<inter> set (row_keys F) = {})) \<and>
   (\<forall>e. subset_data strict F cs is = Inl e \<longrightarrow> e = KeyError) \<and>
   (\<forall>R. subset_data strict F cs is = Inr R \<longrightarrow>
        set (col_keys R) = (set cs \<times> set is) \<inter> set (row_keys F))"
proof (cases "loc_rows strict cs is F")
  case (Inl e)
  with loc_rows_Inl [of strict cs "is" F e] show ?thesis
    by (simp add: subset_data_def)
next
  case (Inr G)
  from loc_rows_Inr [OF Inr] obtain ps where
    G: "col_keys G = col_keys F" "G = take_rows ps F"
       "(\<lambda>p. row_keys F ! p) ` set ps = (set cs \<times> set is) \<inter> set (row_keys F)"
    by blast
  have no_row_error: "\<not> ((strict \<and> \<not> set cs \<subseteq> fst ` set (row_keys F)) \<or>
      (set cs \<inter> fst ` set (row_keys F) \<noteq> {} \<and> strict \<and> \<not> set is \<subseteq> snd ` set (row_keys F)) \<or>
      (set cs \<inter> fst ` set (row_keys F) \<noteq> {} \<and> set is \<inter> snd ` set (row_keys F) \<noteq> {} \<and>
       (set cs \<times> set is) \<inter> set (row_keys F) = {}))"
    using loc_rows_Inl [of strict cs "is" F KeyError] Inr by simp
  show ?thesis
  proof (cases "set years \<subseteq> set (col_keys F)")
    case True
    with Inr G(1) have "subset_data strict F cs is =
        Inr (transpose_frame (select_columns (concat (map (\<lambda>y. positions y (col_keys G)) years)) G))"
      by (simp add: subset_data_def loc_columns_def)
    moreover have "set (col_keys (transpose_frame (select_columns js G))) =
        (set cs \<times> set is) \<inter> set (row_keys F)" for js
      using G(3) by (simp add: transpose_frame_def G(2) take_rows_def)
    ultimately show ?thesis
      using True no_row_error unfolding years_def [symmetric] by auto
  next
    case False
    with Inr G(1) have "subset_data strict F cs is = Inl KeyError"
      by (simp add: subset_data_def loc_columns_def)
    with False show ?thesis
      unfolding years_def [symmetric] by simp
  qed
qed

text \<open>
  On the view with (China, CH4) and (India, CO2): a country that is nowhere is a KeyError
  from pandas 2.0 on and an empty result before; a country and an indicator that never
  occur together are a KeyError.
\<close>

theorem subset_data_key_error_witness:
  "subset_data True two_rows_view [''Japan''] [''CO2''] = Inl KeyError \<and>
   subset_data False two_rows_view [''Japan''] [''CO2''] \<noteq> Inl KeyError \<and>
   subset_data False two_rows_view [''India''] [''CH4''] = Inl KeyError"
proof -
  have rows: "row_keys two_rows_view = [(''China'', ''CH4''), (''India'', ''CO2'')]"
    and cols: "set (map real [1990 ..< 2019]) \<subseteq> set (col_keys two_rows_view)"
    by (simp_all add: two_rows_view_def years_def)
  show ?thesis
    using subset_data_key_error [of True two_rows_view "[''Japan'']" "[''CO2'']"]
      subset_data_key_error [of False two_rows_view "[''Japan'']" "[''CO2'']"]
      subset_data_key_error [of False two_rows_view "[''India'']" "[''CH4'']"] cols
    by (simp add: rows)
qed

section \<open>The slice of the example and its fit\<close>

lemma india_isin:
  "isin_rows ''Country'' [''India''] ''Indicator Name'' [''CO2'']
     (rename_column ''Country Name'' ''Country''
        \<lparr>columns = [''Country Name'', ''Indicator Name'', ''1990'', ''1991'', ''1992''],
         rows = [[Some ''India'', Some ''CO2'', Some ''0'', Some ''0'', Some ''2''],
                 [Some ''China'', Some ''CO2'', Some ''..'', Some ''1'', None]]\<rparr>) =
   Inr \<lparr>columns = [''Country'', ''Indicator Name'', ''1990'', ''1991'', ''1992''],
        rows = [[Some ''India'', Some ''CO2'', Some ''0'', Some ''0'', Some ''2'']]\<rparr>"
  by (simp add: isin_rows_def id_positions_def named_twice_def rename_column_def isin_def cell_at_def)

lemma india_melt:
  "map_sum id (map (coerce example_num))
     (melt \<lparr>columns = [''Country'', ''Indicator Name'', ''1990'', ''1991'', ''1992''],
            rows = [[Some ''India'', Some ''CO2'', Some ''0'', Some ''0'', Some ''2'']]\<rparr>)
     = Inr india_long"
  by (simp add: melt_def id_positions_def named_twice_def cell_at_def coerce_def numeric_cell_def example_num_def india_long_def)

lemma india_group_keys:
  "group_keys country_indicator year val india_long =
     [((''India'', ''CO2''), 1990), ((''India'', ''CO2''), 1991), ((''India'', ''CO2''), 1992)]"
  by (simp add: india_long_def group_keys_def group_mean_def nanmean_def List.map_filter_def
        country_indicator_def)

lemma india_pivot: "pivot_table country_indicator year val india_long = india_slice"
  unfolding pivot_table_def india_group_keys Let_def india_slice_def
  apply (simp add: group_mean_def nanmean_def List.map_filter_def country_indicator_def india_long_def)
  apply (simp add: dropna_columns_def all_missing_def select_columns_def)
  done

lemma india_loc_slice: "loc_slice 1990 1992 india_slice = india_slice"
  by (simp add: loc_slice_def select_columns_def india_slice_def)

lemma example_filter_india_years:
  "filter_Methane_emission_data example_num example_table [''India''] [''CO2''] start_year end_year
     = Inr (loc_slice start_year end_year india_slice)"
proof -
  obtain long where long:
    "melt \<lparr>columns = [''Country'', ''Indicator Name'', ''1990'', ''1991'', ''1992''],
           rows = [[Some ''India'', Some ''CO2'', Some ''0'', Some ''0'', Some ''2'']]\<rparr> = Inr long"
    "map (coerce example_num) long = india_long"
    using india_melt by (auto simp: map_sum_def split: sum.splits)
  show ?thesis
    unfolding filter_Methane_emission_data_def example_drop sum.case india_isin long
      coerce_long_eq india_pivot
    by (rule refl)
qed

lemma example_filter_india:
  "filter_Methane_emission_data example_num example_table [''India''] [''CO2''] 1990 1992
     = Inr india_slice"
  unfolding example_filter_india_years india_loc_slice ..

text \<open>
  India alone, the years 1990 to 1991: the row of China is no row of the restricted table,
  and the columns 1990 and 1991 of its years view stay, 1992 goes.
\<close>

theorem filter_is_sliced_read_witness:
  "rows (requested_rows [''India''] [''CO2''] example_table) =
     [[Some ''India'', Some ''IND'', Some ''CO2'', Some ''EN.ATM'', Some ''0'', Some ''0'', Some ''2'', None]] \<and>
   filter_Methane_emission_data example_num example_table [''India''] [''CO2''] 1990 1991 =
     Inr \<lparr>row_keys = [(''India'', ''CO2'')], col_keys = [1990, 1991], cells = [[Some 0, Some 0]]\<rparr> \<and>
   (case data_read example_num (requested_rows [''India''] [''CO2''] example_table) of
      Inl e \<Rightarrow> Inl e
    | Inr (df_years, df_countries) \<Rightarrow> Inr (loc_slice 1990 1991 df_years)) =
     Inr \<lparr>row_keys = [(''India'', ''CO2'')], col_keys = [1990, 1991], cells = [[Some 0, Some 0]]\<rparr>"
proof -
  have kept: "rows (requested_rows [''India''] [''CO2''] example_table) =
     [[Some ''India'', Some ''IND'', Some ''CO2'', Some ''EN.ATM'', Some ''0'', Some ''0'', Some ''2'', None]]"
    by (simp add: requested_rows_def example_table_def column_cell_def cell_at_def)
  have cut: "loc_slice 1990 1991 india_slice =
      \<lparr>row_keys = [(''India'', ''CO2'')], col_keys = [1990, 1991], cells = [[Some 0, Some 0]]\<rparr>"
    by (simp add: loc_slice_def select_columns_def india_slice_def)
  have code: "filter_Methane_emission_data example_num example_table [''India''] [''CO2''] 1990 1991 =
      Inr \<lparr>row_keys = [(''India'', ''CO2'')], col_keys = [1990, 1991], cells = [[Some 0, Some 0]]\<rparr>"
    unfolding example_filter_india_years cut ..
  from filter_is_sliced_read [of example_num example_table "[''India'']" "[''CO2'']" 1990 1991]
  have "(case data_read example_num (requested_rows [''India''] [''CO2''] example_table) of
      Inl e \<Rightarrow> Inl e
    | Inr (df_years, df_countries) \<Rightarrow> Inr (loc_slice 1990 1991 df_years)) =
     Inr \<lparr>row_keys = [(''India'', ''CO2'')], col_keys = [1990, 1991], cells = [[Some 0, Some 0]]\<rparr>"
    unfolding code by (rule sym [OF conjunct1])
  with kept code show ?thesis
    by (intro conjI)
qed

lemma india_x: "arange (length (col_keys india_slice)) = [Fin 0, Fin 1, Fin 2]"
  by (simp add: india_slice_def arange_def upt_rec [of 0] upt_rec [of 1] upt_rec [of 2])

lemma india_y: "iloc india_slice 0 = [Fin 0, Fin 0, Fin 2]"
  by (simp add: india_slice_def iloc_def to_fval_def)

lemma india_err_ranges_narrow:
  "err_ranges example_quantile [Fin 0, Fin 1, Fin 2] [Fin 0, Fin 0, Fin 2] [Fin 0, Fin 5]
     [[Fin 1, Fin 0], [Fin 0, Fin 1]] alpha = Inr [Fin 25.412, Fin 25.412]"
  by (simp add: err_ranges_def broadcast_x_def t_ppf_def example_quantile_def exp_growth_def
        fsquare_def series_sum_def diag_def)

lemma india_err_ranges_wide:
  "err_ranges example_quantile [Fin 0, Fin 1, Fin 2] [Fin 0, Fin 0, Fin 2] [Fin 0, Fin 5]
     [[Fin 4, Fin 0], [Fin 0, Fin 4]] alpha = Inr [Fin 50.824, Fin 50.824]"
  by (simp add: err_ranges_def broadcast_x_def t_ppf_def example_quantile_def exp_growth_def
        fsquare_def series_sum_def diag_def)

lemma india_todo:
  "[0 ..< length (row_keys india_slice)] = [0]"
  "replicate (length (row_keys india_slice)) (replicate (length (col_keys india_slice)) (Fin 0))
     = [[Fin 0, Fin 0, Fin 0]]"
  "replicate (length (col_keys india_slice)) v = [v, v, v]"
  by (simp_all add: india_slice_def numeral_3_eq_3)

lemma example_predict_narrow:
  "predict_future fit_narrow example_quantile example_num example_table [''India''] [''CO2''] 1990 1992
     = Inr [[Fin 5, Fin 5, Fin 5]]"
  unfolding predict_future_def example_filter_india sum.case india_todo fit_rows.simps Let_def
    india_x india_y
  by (simp add: fit_narrow_def india_err_ranges_narrow india_slice_def)

lemma example_predict_wide:
  "predict_future fit_wide example_quantile example_num example_table [''India''] [''CO2''] 1990 1992
     = Inr [[Fin 5, Fin 5, Fin 5]]"
  unfolding predict_future_def example_filter_india sum.case india_todo fit_rows.simps Let_def
    india_x india_y
  by (simp add: fit_wide_def india_err_ranges_wide india_slice_def)

section \<open>Properties of the batch fit\<close>

lemma err_ranges_Inr_popt:
  "err_ranges quantile xdata ydata popt pcov alpha = Inr ci \<Longrightarrow> \<exists>a b. popt = [a, b]"
  by (auto simp: err_ranges_def Let_def split: list.splits)

text \<open>Whether \<open>err_ranges\<close> raises does not depend on the covariance matrix.\<close>

lemma err_ranges_raises:
  "map_sum id (\<lambda>ci. ()) (err_ranges quantile xdata ydata popt pcov alpha) =
   map_sum id (\<lambda>ci. ()) (err_ranges quantile xdata ydata popt pcov' alpha)"
  by (auto simp: err_ranges_def Let_def split: list.splits sum.splits)

text \<open>
  The loop: the rows it was given to do hold the fitted exponent throughout, the other
  rows are as they were.
\<close>

lemma fit_rows_Inr:
  assumes "fit_rows curve_fit quantile data todo g = Inr G"
    and "distinct todo" and "\<forall>i \<in> set todo. i < length g"
  shows "length G = length g \<and>
         (\<forall>i < length g. i \<notin> set todo \<longrightarrow> G ! i = g ! i) \<and>
         (\<forall>i \<in> set todo. \<exists>a b pcov.
              curve_fit (arange (length (col_keys data))) (iloc data i) = Inr ([a, b], pcov) \<and>
              G ! i = replicate (length (col_keys data)) b)"
  using assms
proof (induction todo arbitrary: g)
  case Nil
  then show ?case by simp
next
  case (Cons i todo)
  let ?n = "length (col_keys data)"
  from Cons.prems(1) obtain popt pcov where fit: "curve_fit (arange ?n) (iloc data i) = Inr (popt, pcov)"
    by (auto simp: Let_def split: sum.splits)
  with Cons.prems(1) obtain ci where "err_ranges quantile (arange ?n) (iloc data i) popt pcov 0.05 = Inr ci"
    by (auto simp: Let_def split: sum.splits)
  then obtain a b where popt: "popt = [a, b]"
    using err_ranges_Inr_popt by blast
  let ?g = "g[i := replicate ?n b]"
  from Cons.prems(1) fit popt have rest: "fit_rows curve_fit quantile data todo ?g = Inr G"
    by (auto simp: Let_def split: sum.splits)
  from Cons.prems(2,3) have "distinct todo" and "\<forall>j \<in> set todo. j < length ?g"
    by simp_all
  from Cons.IH [OF rest this] have
    len: "length G = length g" and
    same: "\<forall>j < length g. j \<notin> set todo \<longrightarrow> G ! j = ?g ! j" and
    fitted: "\<forall>j \<in> set todo. \<exists>a b pcov.
              curve_fit (arange ?n) (iloc data j) = Inr ([a, b], pcov) \<and> G ! j = replicate ?n b"
    by simp_all
  from Cons.prems(2,3) have i: "i < length g" "i \<notin> set todo"
    by simp_all
  with same have "G ! i = replicate ?n b"
    by simp
  with fit popt have here: "\<exists>a b pcov.
      curve_fit (arange ?n) (iloc data i) = Inr ([a, b], pcov) \<and> G ! i = replicate ?n b"
    by blast
  have "\<forall>j < length g. j \<notin> set (i # todo) \<longrightarrow> G ! j = g ! j"
    using same by auto
  with len here fitted show ?case
    by simp
qed

lemma predict_future_rows:
  assumes "filter_Methane_emission_data num T countries indicators start_year end_year = Inr data"
    and "predict_future curve_fit quantile num T countries indicators start_year end_year = Inr G"
  shows "length G = length (row_keys data) \<and>
         (\<forall>i < length (row_keys data). \<exists>a b pcov.
              curve_fit (arange (length (col_keys data))) (iloc data i) = Inr ([a, b], pcov) \<and>
              G ! i = replicate (length (col_keys data)) b)"
proof -
  let ?g = "replicate (length (row_keys data)) (replicate (length (col_keys data)) (Fin 0))"
  from assms have "fit_rows curve_fit quantile data [0 ..< length (row_keys data)] ?g = Inr G"
    by (simp add: predict_future_def)
  from fit_rows_Inr [OF this] show ?thesis
    by simp
qed

text \<open>
  Claim C7. Whenever \<open>predict_future\<close> returns, then for every row \<open>i\<close> of the filtered
  slice with its N year columns the fit was given the x values 0, 1, ..., N - 1, the
  positions of the columns and not their years, together with the values of the row; it
  returned parameters \<open>[a, b]\<close> of the model \<open>a * exp (b * x)\<close>, and the growth rate
  reported for the row is the exponent coefficient \<open>b\<close>.
\<close>

theorem predict_future_fits_index:
  assumes "filter_Methane_emission_data num T countries indicators start_year end_year = Inr data"
    and "predict_future curve_fit quantile num T countries indicators start_year end_year
           = Inr growth_rate"
    and "i < length (row_keys data)"
  shows "\<exists>a b pcov.
           curve_fit (map (\<lambda>k. Fin (real k)) [0 ..< length (col_keys data)]) (iloc data i)
             = Inr ([a, b], pcov) \<and>
           growth_rate ! i = replicate (length (col_keys data)) b"
  using predict_future_rows [OF assms(1,2)] assms(3)
  by (simp add: arange_def)

theorem predict_future_fits_index_witness:
  "filter_Methane_emission_data example_num example_table [''India''] [''CO2''] 1990 1992
     = Inr india_slice \<and>
   predict_future fit_narrow example_quantile example_num example_table [''India''] [''CO2''] 1990 1992
     = Inr [[Fin 5, Fin 5, Fin 5]] \<and>
   (\<exists>a pcov. fit_narrow [Fin 0, Fin 1, Fin 2] (iloc india_slice 0) = Inr ([a, Fin 5], pcov))"
proof -
  have "0 < length (row_keys india_slice)"
    by (simp add: india_slice_def)
  from predict_future_fits_index [OF example_filter_india example_predict_narrow this]
  obtain a b pcov where
    fit: "fit_narrow (map (\<lambda>k. Fin (real k)) [0 ..< length (col_keys india_slice)]) (iloc india_slice 0)
            = Inr ([a, b], pcov)"
    and row: "[[Fin 5, Fin 5, Fin 5]] ! 0 = replicate (length (col_keys india_slice)) b"
    by blast
  from row have "b = Fin 5"
    by (simp add: india_slice_def numeral_3_eq_3)
  moreover have "map (\<lambda>k. Fin (real k)) [0 ..< length (col_keys india_slice)] = [Fin 0, Fin 1, Fin 2]"
    using india_x by (simp add: arange_def)
  ultimately have "\<exists>a pcov. fit_narrow [Fin 0, Fin 1, Fin 2] (iloc india_slice 0) = Inr ([a, Fin 5], pcov)"
    using fit by auto
  with example_filter_india example_predict_narrow show ?thesis
    by blast
qed

text \<open>
  Claim C10. The array \<open>predict_future\<close> returns has the shape of the filtered slice, one
  row for every (country, indicator) key and one column for every selected year, and every
  entry of row \<open>i\<close> is the one exponent \<open>b\<close> fitted for that row.
\<close>

theorem predict_future_shape:
  assumes "filter_Methane_emission_data num T countries indicators start_year end_year = Inr data"
    and "predict_future curve_fit quantile num T countries indicators start_year end_year
           = Inr growth_rate"
  shows "length growth_rate = length (row_keys data) \<and>
         (\<forall>i < length (row_keys data).
            length (growth_rate ! i) = length (col_keys data) \<and>
            (\<exists>a b pcov.
               curve_fit (arange (length (col_keys data))) (iloc data i) = Inr ([a, b], pcov) \<and>
               (\<forall>j < length (col_keys data). growth_rate ! i ! j = b)))"
proof -
  from predict_future_rows [OF assms] have
    len: "length growth_rate = length (row_keys data)" and
    rows: "\<forall>i < length (row_keys data). \<exists>a b pcov.
              curve_fit (arange (length (col_keys data))) (iloc data i) = Inr ([a, b], pcov) \<and>
              growth_rate ! i = replicate (length (col_keys data)) b"
    by simp_all
  have "length (growth_rate ! i) = length (col_keys data) \<and>
        (\<exists>a b pcov.
           curve_fit (arange (length (col_keys data))) (iloc data i) = Inr ([a, b], pcov) \<and>
           (\<forall>j < length (col_keys data). growth_rate ! i ! j = b))"
    if "i < length (row_keys data)" for i
  proof -
    from rows that obtain a b pcov where
      "curve_fit (arange (length (col_keys data))) (iloc data i) = Inr ([a, b], pcov)"
      "growth_rate ! i = replicate (length (col_keys data)) b"
      by blast
    then show ?thesis by auto
  qed
  with len show ?thesis by blast
qed

theorem predict_future_shape_witness:
  "filter_Methane_emission_data example_num example_table [''India''] [''CO2''] 1990 1992
     = Inr india_slice \<and>
   predict_future fit_narrow example_quantile example_num example_table [''India''] [''CO2''] 1990 1992
     = Inr [[Fin 5, Fin 5, Fin 5]] \<and>
   length [[Fin 5, Fin 5, Fin 5]] = length (row_keys india_slice) \<and>
   length ([[Fin 5, Fin 5, Fin 5]] ! 0) = length (col_keys india_slice)"
proof -
  have "0 < length (row_keys india_slice)"
    by (simp add: india_slice_def)
  with predict_future_shape [OF example_filter_india example_predict_narrow]
    example_filter_india example_predict_narrow
  show ?thesis
    by blast
qed

text \<open>
  Claim C8, as stated, has \<open>predict_future\<close> deliver for each row the growth rate
  together with the confidence half-widths. It returns \<open>growth_rate\<close> alone: on the slice
  of the example two fits with the same parameters and different covariance matrices have
  different half-widths, 25.412 against 50.824, and the same result.
\<close>

theorem predict_future_returns_pairs_counterexample:
  "predict_future fit_narrow example_quantile example_num example_table [''India''] [''CO2''] 1990 1992
     = Inr [[Fin 5, Fin 5, Fin 5]] \<and>
   predict_future fit_wide example_quantile example_num example_table [''India''] [''CO2''] 1990 1992
     = Inr [[Fin 5, Fin 5, Fin 5]] \<and>
   fit_narrow (arange 3) (iloc india_slice 0) = Inr ([Fin 0, Fin 5], [[Fin 1, Fin 0], [Fin 0, Fin 1]]) \<and>
   fit_wide (arange 3) (iloc india_slice 0) = Inr ([Fin 0, Fin 5], [[Fin 4, Fin 0], [Fin 0, Fin 4]]) \<and>
   err_ranges example_quantile (arange 3) (iloc india_slice 0) [Fin 0, Fin 5]
       [[Fin 1, Fin 0], [Fin 0, Fin 1]] 0.05 = Inr [Fin 25.412, Fin 25.412] \<and>
   err_ranges example_quantile (arange 3) (iloc india_slice 0) [Fin 0, Fin 5]
       [[Fin 4, Fin 0], [Fin 0, Fin 4]] 0.05 = Inr [Fin 50.824, Fin 50.824]"
proof -
  have n: "length (col_keys india_slice) = 3"
    by (simp add: india_slice_def)
  have "arange 3 = [Fin 0, Fin 1, Fin 2]"
    using india_x unfolding n .
  then show ?thesis
    by (simp only: example_predict_narrow example_predict_wide india_y india_err_ranges_narrow
          india_err_ranges_wide fit_narrow_def fit_wide_def simp_thms)
qed

lemma fit_rows_ignores_covariance:
  assumes "\<forall>xs ys. map_sum id fst (fit_a xs ys) = map_sum id fst (fit_b xs ys)"
  shows "fit_rows fit_a quantile data todo g = fit_rows fit_b quantile data todo g"
proof (induction todo arbitrary: g)
  case Nil
  show ?case by simp
next
  case (Cons i todo)
  let ?xs = "arange (length (col_keys data))" and ?ys = "iloc data i"
  from assms have same: "map_sum id fst (fit_a ?xs ?ys) = map_sum id fst (fit_b ?xs ?ys)"
    by blast
  show ?case
  proof (cases "fit_a ?xs ?ys")
    case (Inl e)
    with same have "fit_b ?xs ?ys = Inl e"
      by (cases "fit_b ?xs ?ys") auto
    with Inl show ?thesis by simp
  next
    case (Inr r)
    obtain popt pcov where r: "r = (popt, pcov)"
      by (cases r)
    with Inr same obtain pcov' where b: "fit_b ?xs ?ys = Inr (popt, pcov')"
      by (cases "fit_b ?xs ?ys") auto
    from err_ranges_raises [of quantile ?xs ?ys popt pcov "0.05" pcov']
    show ?thesis
      using Inr r b Cons.IH
      by (auto simp: Let_def split: sum.splits)
  qed
qed

text \<open>
  Claim C8, amended. What \<open>predict_future\<close> delivers for each row is the growth rate
  only. The half-widths are computed for each row and dropped: two fits that agree on
  their failures and on the parameters they return, whatever their covariance matrices
  and so their half-widths, give the same result.
\<close>

theorem predict_future_ignores_covariance:
  assumes "\<forall>xs ys. map_sum id fst (fit_a xs ys) = map_sum id fst (fit_b xs ys)"
  shows "predict_future fit_a quantile num T countries indicators start_year end_year =
         predict_future fit_b quantile num T countries indicators start_year end_year"
  by (simp add: predict_future_def fit_rows_ignores_covariance [OF assms] split: sum.splits)

theorem predict_future_ignores_covariance_witness:
  "(\<forall>xs ys. map_sum id fst (fit_narrow xs ys) = map_sum id fst (fit_wide xs ys)) \<and>
   predict_future fit_narrow example_quantile example_num example_table [''India''] [''CO2''] 1990 1992 =
   predict_future fit_wide example_quantile example_num example_table [''India''] [''CO2''] 1990 1992"
proof -
  have same: "\<forall>xs ys. map_sum id fst (fit_narrow xs ys) = map_sum id fst (fit_wide xs ys)"
    by (simp add: fit_narrow_def fit_wide_def)
  from predict_future_ignores_covariance [OF same] same show ?thesis
    by blast
qed

end
